theory Spec2Isabelle
  imports Complex_Main
begin

section \<open>JavaScript numbers\<close>

text \<open>
  The fields of a frustum and the components of a vector are JavaScript numbers: IEEE 754
  binary64 values. A finite one is \<open>Num r\<close> for the real \<open>r\<close> it stands for, and the
  other three are \<open>Infinity\<close>, \<open>-Infinity\<close> and \<open>NaN\<close>. Every arithmetic operation
  computes the exact real result and rounds it to the nearest double, ties to the even
  significand (\<open>rnd\<close>): a result of magnitude \<open>2^1024\<close> or more after rounding is an
  infinity, and below \<open>2^-1022\<close> the doubles are \<open>2^-1074\<close> apart, so a small result
  may round to zero. The two zeros \<open>+0\<close> and \<open>-0\<close> are the one value \<open>Num 0\<close>, and a
  division by it behaves as a division by \<open>+0\<close>.
\<close>

datatype number = Num real | PosInf | NegInf | NaN

text \<open>The nearest integer, the even one of two that are equally near.\<close>

definition round_even :: "real \<Rightarrow> int" where
  "round_even r =
     (let f = \<lfloor>r\<rfloor>; d = r - of_int f
      in if d < 1 / 2 then f else if 1 / 2 < d then f + 1 else if even f then f else f + 1)"

text \<open>
  The distance between neighbouring doubles around \<open>x\<close>: 53 significant bits from
  \<open>2^-1022\<close> on, and \<open>2^-1074\<close> below that.
\<close>

definition quantum :: "real \<Rightarrow> real" where
  "quantum x =
     (if \<bar>x\<bar> < 2 powi (- 1022) then 2 powi (- 1074) else 2 powi (\<lfloor>log 2 \<bar>x\<bar>\<rfloor> - 52))"

definition rnd :: "real \<Rightarrow> number" where
  "rnd x =
     (let y = of_int (round_even (x / quantum x)) * quantum x
      in if 2 powi 1024 \<le> \<bar>y\<bar> then (if 0 < x then PosInf else NegInf) else Num y)"

instantiation number :: "{plus, uminus, minus, times, inverse, ord}"
begin

fun plus_number :: "number \<Rightarrow> number \<Rightarrow> number" where
  "plus_number (Num a) (Num b) = rnd (a + b)"
| "plus_number NaN _ = NaN"
| "plus_number _ NaN = NaN"
| "plus_number PosInf NegInf = NaN"
| "plus_number NegInf PosInf = NaN"
| "plus_number PosInf _ = PosInf"
| "plus_number _ PosInf = PosInf"
| "plus_number NegInf _ = NegInf"
| "plus_number _ NegInf = NegInf"

fun uminus_number :: "number \<Rightarrow> number" where
  "uminus_number (Num a) = Num (- a)"
| "uminus_number PosInf = NegInf"
| "uminus_number NegInf = PosInf"
| "uminus_number NaN = NaN"

definition minus_number :: "number \<Rightarrow> number \<Rightarrow> number" where
  "minus_number a b = a + (- b)"

fun times_number :: "number \<Rightarrow> number \<Rightarrow> number" where
  "times_number (Num a) (Num b) = rnd (a * b)"
| "times_number NaN _ = NaN"
| "times_number _ NaN = NaN"
| "times_number PosInf (Num b) = (if b = 0 then NaN else if 0 < b then PosInf else NegInf)"
| "times_number NegInf (Num b) = (if b = 0 then NaN else if 0 < b then NegInf else PosInf)"
| "times_number (Num a) PosInf = (if a = 0 then NaN else if 0 < a then PosInf else NegInf)"
| "times_number (Num a) NegInf = (if a = 0 then NaN else if 0 < a then NegInf else PosInf)"
| "times_number PosInf PosInf = PosInf"
| "times_number PosInf NegInf = NegInf"
| "times_number NegInf PosInf = NegInf"
| "times_number NegInf NegInf = PosInf"

fun divide_number :: "number \<Rightarrow> number \<Rightarrow> number" where
  "divide_number (Num a) (Num b) =
     (if b = 0 then (if a = 0 then NaN else if 0 < a then PosInf else NegInf)
      else rnd (a / b))"
| "divide_number NaN _ = NaN"
| "divide_number _ NaN = NaN"
| "divide_number (Num a) _ = Num 0"
| "divide_number PosInf (Num b) = (if 0 \<le> b then PosInf else NegInf)"
| "divide_number NegInf (Num b) = (if 0 \<le> b then NegInf else PosInf)"
| "divide_number PosInf PosInf = NaN"
| "divide_number PosInf NegInf = NaN"
| "divide_number NegInf PosInf = NaN"
| "divide_number NegInf NegInf = NaN"

definition inverse_number :: "number \<Rightarrow> number" where
  "inverse_number a = divide (Num 1) a"

fun less_number :: "number \<Rightarrow> number \<Rightarrow> bool" where
  "less_number (Num a) (Num b) = (a < b)"
| "less_number NaN _ = False"
| "less_number _ NaN = False"
| "less_number _ NegInf = False"
| "less_number PosInf _ = False"
| "less_number _ _ = True"

fun less_eq_number :: "number \<Rightarrow> number \<Rightarrow> bool" where
  "less_eq_number (Num a) (Num b) = (a \<le> b)"
| "less_eq_number NaN _ = False"
| "less_eq_number _ NaN = False"
| "less_eq_number NegInf _ = True"
| "less_eq_number _ PosInf = True"
| "less_eq_number _ _ = False"

instance ..

end

text \<open>\<open>a === b\<close> on numbers: \<open>NaN\<close> equals nothing; \<open>a !== b\<close> is its negation.\<close>

definition strict_eq :: "number \<Rightarrow> number \<Rightarrow> bool" where
  "strict_eq a b = (a \<noteq> NaN \<and> a = b)"

text \<open>A number is falsy when it is zero or \<open>NaN\<close>.\<close>

definition truthy :: "number \<Rightarrow> bool" where
  "truthy a = (a \<noteq> Num 0 \<and> a \<noteq> NaN)"

text \<open>\<open>a || d\<close> for an argument that may be omitted (\<open>undefined\<close> is \<open>None\<close>).\<close>

definition or_default :: "number option \<Rightarrow> number \<Rightarrow> number" where
  "or_default a d = (case a of None \<Rightarrow> d | Some v \<Rightarrow> if truthy v then v else d)"

fun Math_sqrt :: "number \<Rightarrow> number" where
  "Math_sqrt (Num a) = (if a < 0 then NaN else rnd (sqrt a))"
| "Math_sqrt PosInf = PosInf"
| "Math_sqrt NegInf = NaN"
| "Math_sqrt NaN = NaN"

text \<open>
  \<open>Math.pow(a, 2)\<close>, taken to be the correctly rounded square, the product \<open>a * a\<close>.
\<close>

definition Math_pow2 :: "number \<Rightarrow> number" where
  "Math_pow2 a = a * a"

fun Math_min :: "number \<Rightarrow> number \<Rightarrow> number" where
  "Math_min NaN _ = NaN"
| "Math_min _ NaN = NaN"
| "Math_min a b = (if b < a then b else a)"

fun Math_max :: "number \<Rightarrow> number \<Rightarrow> number" where
  "Math_max NaN _ = NaN"
| "Math_max _ NaN = NaN"
| "Math_max a b = (if a < b then b else a)"

definition finite_number :: "number \<Rightarrow> bool" where
  "finite_number a = (case a of Num _ \<Rightarrow> True | _ \<Rightarrow> False)"

section \<open>Vectors and boxes of the three-full library\<close>

text \<open>
  Modelled from the spec: \<open>Vector3\<close> and \<open>Box3\<close> are imported from the three-full
  library, which is not under src/. The spec names them as given capabilities (vector
  add, subtract, dot, scale-and-add, normalize, length, equality; a box built from two
  corner points, with union) and leaves the normalization of the zero vector open
  ("a zero or NaN axis"). The definitions below give the methods the source calls, with
  component-wise arithmetic, as the library has them: \<open>divideScalar(s)\<close> multiplies by
  \<open>1 / s\<close>, and \<open>normalize()\<close> divides by \<open>length() || 1\<close>, so the zero vector
  stays the zero vector. A mutating method is the function from the old value of
  \<open>this\<close> to the new one. The components \<open>x\<close>, \<open>y\<close>, \<open>z\<close> are the fields
  \<open>vx\<close>, \<open>vy\<close>, \<open>vz\<close>, and a name that HOL already uses carries the suffix
  \<open>_v\<close> (a vector's method) or \<open>_b\<close> (a box's).
\<close>

record Vector3 =
  vx :: number
  vy :: number
  vz :: number

definition vec :: "number \<Rightarrow> number \<Rightarrow> number \<Rightarrow> Vector3" where
  "vec a b c = \<lparr>vx = a, vy = b, vz = c\<rparr>"

definition subVectors :: "Vector3 \<Rightarrow> Vector3 \<Rightarrow> Vector3" where
  "subVectors a b = vec (vx a - vx b) (vy a - vy b) (vz a - vz b)"

definition addVectors :: "Vector3 \<Rightarrow> Vector3 \<Rightarrow> Vector3" where
  "addVectors a b = vec (vx a + vx b) (vy a + vy b) (vz a + vz b)"

definition addScaledVector :: "Vector3 \<Rightarrow> Vector3 \<Rightarrow> number \<Rightarrow> Vector3" where
  "addScaledVector this v s = vec (vx this + vx v * s) (vy this + vy v * s) (vz this + vz v * s)"

definition multiplyScalar :: "Vector3 \<Rightarrow> number \<Rightarrow> Vector3" where
  "multiplyScalar this s = vec (vx this * s) (vy this * s) (vz this * s)"

definition divideScalar :: "Vector3 \<Rightarrow> number \<Rightarrow> Vector3" where
  "divideScalar this s = multiplyScalar this (Num 1 / s)"

definition dot :: "Vector3 \<Rightarrow> Vector3 \<Rightarrow> number" where
  "dot this v = vx this * vx v + vy this * vy v + vz this * vz v"

definition length_v :: "Vector3 \<Rightarrow> number" where
  "length_v this = Math_sqrt (vx this * vx this + vy this * vy this + vz this * vz this)"

definition normalize_v :: "Vector3 \<Rightarrow> Vector3" where
  "normalize_v this = divideScalar this (or_default (Some (length_v this)) (Num 1))"

definition equals_v :: "Vector3 \<Rightarrow> Vector3 \<Rightarrow> bool" where
  "equals_v this v = (strict_eq (vx v) (vx this) \<and> strict_eq (vy v) (vy this) \<and> strict_eq (vz v) (vz this))"

definition min_v :: "Vector3 \<Rightarrow> Vector3 \<Rightarrow> Vector3" where
  "min_v this v = vec (Math_min (vx this) (vx v)) (Math_min (vy this) (vy v)) (Math_min (vz this) (vz v))"

definition max_v :: "Vector3 \<Rightarrow> Vector3 \<Rightarrow> Vector3" where
  "max_v this v = vec (Math_max (vx this) (vx v)) (Math_max (vy this) (vy v)) (Math_max (vz this) (vz v))"

definition finite_v :: "Vector3 \<Rightarrow> bool" where
  "finite_v v = (finite_number (vx v) \<and> finite_number (vy v) \<and> finite_number (vz v))"

record Box3 =
  min_b :: Vector3
  max_b :: Vector3

definition union_b :: "Box3 \<Rightarrow> Box3 \<Rightarrow> Box3" where
  "union_b this box = \<lparr>min_b = min_v (min_b this) (min_b box), max_b = max_v (max_b this) (max_b box)\<rparr>"

section \<open>The store of vector objects\<close>

text \<open>
  A \<open>Vector3\<close> is an object: two variables may hold the same one, and a method that
  mutates it is seen through both. The store is the list of all vector objects
  allocated so far, a reference is an index into it, and \<open>new Vector3(..)\<close> appends.
\<close>

type_synonym ref = nat
type_synonym heap = "Vector3 list"

definition new_Vector3 :: "Vector3 \<Rightarrow> heap \<Rightarrow> ref \<times> heap" where
  "new_Vector3 v h = (length h, h @ [v])"

section \<open>ConeFrustum\<close>

text \<open>
  The class \<open>ConeFrustum\<close> of src/ConeFrustum.js. The fields \<open>base\<close> and \<open>axis\<close> hold vector
  objects: references (\<open>ref ConeFrustum\<close>) where the code shares or mutates them, and
  the vectors' values (\<open>Vector3 ConeFrustum\<close>, read off the store by \<open>deref\<close>) where
  it only reads them.
\<close>

record 'v ConeFrustum =
  base :: 'v
  axis :: 'v
  height :: number
  radius0 :: number
  radius1 :: number

definition deref :: "heap \<Rightarrow> ref ConeFrustum \<Rightarrow> Vector3 ConeFrustum" where
  "deref h f = \<lparr>base = h ! base f, axis = h ! axis f, height = height f,
                radius0 = radius0 f, radius1 = radius1 f\<rparr>"

text \<open>
  The constructor (lines 17 to 27). An omitted argument is \<open>None\<close>. An object is
  truthy, so \<open>base || new Vector3()\<close> allocates only when \<open>base\<close> is omitted;
  \<open>this.axis.normalize()\<close> mutates the object \<open>this.axis\<close> refers to.
\<close>

definition constructor ::
  "ref option \<Rightarrow> ref option \<Rightarrow> number option \<Rightarrow> number option \<Rightarrow> number option \<Rightarrow> heap
   \<Rightarrow> ref ConeFrustum \<times> heap" where
  "constructor base_arg axis_arg height_arg radius0_arg radius1_arg h =
     (let (b, h1) = (case base_arg of Some p \<Rightarrow> (p, h)
                     | None \<Rightarrow> new_Vector3 (vec (Num 0) (Num 0) (Num 0)) h);
          (a, h2) = (case axis_arg of Some p \<Rightarrow> (p, h1)
                     | None \<Rightarrow> new_Vector3 (vec (Num 0) (Num 1) (Num 0)) h1);
          h3 = h2[a := normalize_v (h2 ! a)]
      in (\<lparr>base = b, axis = a,
           height = or_default height_arg (Num 1),
           radius0 = or_default radius0_arg (Num 0),
           radius1 = or_default radius1_arg (Num 0)\<rparr>, h3))"

text \<open>
  \<open>fromCapsule\<close> (lines 37 to 42). The arguments of \<open>new ConeFrustum(..)\<close> are
  evaluated left to right: \<open>axis.clone().normalize()\<close> allocates and normalizes a copy,
  then \<open>axis.length()\<close> reads the vector that was not normalized.
\<close>

definition fromCapsule ::
  "ref \<Rightarrow> number \<Rightarrow> ref \<Rightarrow> number \<Rightarrow> heap \<Rightarrow> ref ConeFrustum \<times> heap" where
  "fromCapsule center0 radius0_arg center1 radius1_arg h =
     (let (ax, h1) = new_Vector3 (vec (Num 0) (Num 0) (Num 0)) h;
          h2 = h1[ax := subVectors (h1 ! center1) (h1 ! center0)];
          (c, h3) = new_Vector3 (h2 ! ax) h2;
          h4 = h3[c := normalize_v (h3 ! c)]
      in constructor (Some center0) (Some c) (Some (length_v (h4 ! ax)))
           (Some radius0_arg) (Some radius1_arg) h4)"

text \<open>\<open>empty\<close> (lines 64 to 67).\<close>

definition empty_f :: "'v ConeFrustum \<Rightarrow> bool" where
  "empty_f this = (strict_eq (height this) (Num 0) \<or>
                 (strict_eq (radius0 this) (Num 0) \<and> strict_eq (radius1 this) (Num 0)))"

text \<open>
  \<open>copy\<close> (lines 48 to 55) gives \<open>this\<close> fresh copies of the other frustum's
  vectors. The method has no \<open>return\<close> statement, so the value of a call is
  \<open>undefined\<close>: the result is that value, the updated \<open>this\<close> and the store.
\<close>

datatype 'a jsval = Undefined | Obj 'a

datatype error = TypeError

definition copy ::
  "ref ConeFrustum \<Rightarrow> ref ConeFrustum \<Rightarrow> heap
   \<Rightarrow> ref ConeFrustum jsval \<times> ref ConeFrustum \<times> heap" where
  "copy this frustum h =
     (let (b, h1) = new_Vector3 (h ! base frustum) h;
          (a, h2) = new_Vector3 (h1 ! axis frustum) h1
      in (Undefined,
          this\<lparr>base := b, axis := a, height := height frustum,
               radius0 := radius0 frustum, radius1 := radius1 frustum\<rparr>,
          h2))"

text \<open>\<open>clone\<close> (lines 58 to 61) returns the value of \<open>new ConeFrustum().copy(this)\<close>.\<close>

definition clone :: "ref ConeFrustum \<Rightarrow> heap \<Rightarrow> ref ConeFrustum jsval \<times> heap" where
  "clone this h =
     (let (fresh, h1) = constructor None None None None None h;
          (ret, fresh', h2) = copy fresh this h1
      in (ret, h2))"

text \<open>
  \<open>equals\<close> (lines 106 to 113). Reading \<open>frustum.base\<close> of an argument that is
  \<open>undefined\<close> throws a TypeError.
\<close>

definition equals :: "ref ConeFrustum \<Rightarrow> ref ConeFrustum jsval \<Rightarrow> heap \<Rightarrow> error + bool" where
  "equals this frustum h =
     (case frustum of
        Undefined \<Rightarrow> Inl TypeError
      | Obj f \<Rightarrow>
          Inr (equals_v (h ! base this) (h ! base f) \<and>
               equals_v (h ! axis this) (h ! axis f) \<and>
               strict_eq (height this) (height f) \<and>
               strict_eq (radius0 this) (radius0 f) \<and>
               strict_eq (radius1 this) (radius1 f)))"

text \<open>
  \<open>getBoundingBox\<close> (lines 73 to 99) reads the frustum and builds fresh vectors only,
  so it is a function of the frustum's values. The result is the returned box and the
  caller's \<open>target\<close> after the call (\<open>None\<close> when no target was passed).
\<close>

definition getBoundingBox :: "Vector3 ConeFrustum \<Rightarrow> Box3 option \<Rightarrow> Box3 \<times> Box3 option" where
  "getBoundingBox this target =
     (let c = base this;
          d = vec (Math_sqrt (Num 1 * vx (axis this) * vx (axis this)))
                  (Math_sqrt (Num 1 * vy (axis this) * vy (axis this)))
                  (Math_sqrt (Num 1 * vz (axis this) * vz (axis this)));
          d1 = multiplyScalar d (radius0 this);
          box1 = \<lparr>min_b = subVectors c d1, max_b = addVectors c d1\<rparr>;
          d2 = divideScalar d1 (radius0 this);
          d3 = multiplyScalar d2 (radius1 this);
          c1 = addScaledVector c (axis this) (height this);
          box2 = \<lparr>min_b = subVectors c1 d3, max_b = addVectors c1 d3\<rparr>;
          box = union_b box1 box2
      in (box, case target of None \<Rightarrow> None | Some t \<Rightarrow> Some (t\<lparr>min_b := min_b box, max_b := max_b box\<rparr>)))"

section \<open>The intersection of a ray with a frustum\<close>

text \<open>
  \<open>Ray.prototype.intersectsConeFrustum\<close> (lines 121 to 210). The function is made once,
  in a closure that holds three vectors of its own, \<open>D\<close>, \<open>u\<close> and \<open>target2\<close>
  (lines 123 to 125). Every call writes them, and \<open>target2\<close> is also what a call
  returns, so the caller may hold it and pass it back in as part of a ray or a frustum.
  The function therefore works on the store: the ray and the frustum hold references, and
  every read is a read of the store as it is at that line.
\<close>

record 'v Ray =
  origin :: 'v
  direction :: 'v

record closure =
  cl_D :: ref
  cl_target2 :: ref
  cl_u :: ref

definition deref_ray :: "heap \<Rightarrow> ref Ray \<Rightarrow> Vector3 Ray" where
  "deref_ray h r = \<lparr>origin = h ! origin r, direction = h ! direction r\<rparr>"

text \<open>
  Lines 132 to 135 and 137 to 145: the coefficients of the quadratic, read off the store
  once \<open>D\<close> holds \<open>origin - base\<close>.
\<close>

definition coefficients :: "closure \<Rightarrow> ref Ray \<Rightarrow> ref ConeFrustum \<Rightarrow> heap \<Rightarrow> number \<times> number \<times> number" where
  "coefficients cl this frustum h =
     (let deltaR = radius1 frustum - radius0 frustum;
          r = Num 1 + Math_pow2 (deltaR / height frustum);
          R = radius0 frustum * deltaR / height frustum;
          DdA = dot (h ! cl_D cl) (h ! axis frustum);
          DdD = dot (h ! cl_D cl) (h ! cl_D cl);
          VdA = dot (h ! direction this) (h ! axis frustum);
          VdD = dot (h ! direction this) (h ! cl_D cl);
          VdV = dot (h ! direction this) (h ! direction this);
          c0 = radius0 frustum * radius0 frustum + Num 2 * R * DdA + r * DdA * DdA - DdD;
          c1 = R * VdA + r * DdA * VdA - VdD;
          c2 = r * VdA * VdA - VdV
      in (c0, c1, c2))"

text \<open>
  The statements the source repeats for each candidate \<open>t\<close>:
  \<open>u.copy(D); u.addScaledVector(this.direction, t)\<close>, then \<open>frustum.axis.dot(u)\<close>,
  then \<open>target2.addVectors(frustum.base, u)\<close>, and at the end \<open>target.copy(target2)\<close>.
\<close>

definition candidate_u :: "closure \<Rightarrow> ref Ray \<Rightarrow> number \<Rightarrow> heap \<Rightarrow> heap" where
  "candidate_u cl this t h =
     (let h2 = h[cl_u cl := h ! cl_D cl]
      in h2[cl_u cl := addScaledVector (h2 ! cl_u cl) (h2 ! direction this) t])"

definition axial_of_u :: "closure \<Rightarrow> ref ConeFrustum \<Rightarrow> heap \<Rightarrow> number" where
  "axial_of_u cl frustum h = dot (h ! axis frustum) (h ! cl_u cl)"

definition store_hit :: "closure \<Rightarrow> ref ConeFrustum \<Rightarrow> heap \<Rightarrow> heap" where
  "store_hit cl frustum h = h[cl_target2 cl := addVectors (h ! base frustum) (h ! cl_u cl)]"

definition copy_to_target :: "closure \<Rightarrow> ref \<Rightarrow> heap \<Rightarrow> heap" where
  "copy_to_target cl target h = h[target := h ! cl_target2 cl]"

text \<open>
  The function. The result is the returned reference (\<open>None\<close> for \<open>null\<close>) and the
  store after the call; \<open>target_arg\<close> is the optional argument \<open>target\<close>, which is
  \<open>target2\<close> when it is omitted (lines 129 and 130).
\<close>

definition intersectsConeFrustum ::
  "closure \<Rightarrow> ref Ray \<Rightarrow> ref ConeFrustum \<Rightarrow> ref option \<Rightarrow> heap \<Rightarrow> ref option \<times> heap" where
  "intersectsConeFrustum cl this frustum target_arg h =
     (let target = (case target_arg of None \<Rightarrow> cl_target2 cl | Some r \<Rightarrow> r);
          h1 = h[cl_D cl := subVectors (h ! origin this) (h ! base frustum)];
          (c0, c1, c2) = coefficients cl this frustum h1
      in if \<not> strict_eq c2 (Num 0) then
           (let discr = c1 * c1 - c2 * c0
            in if discr < Num 0 then (None, h1)
               else if strict_eq discr (Num 0) then
                 (let t = (- c1) / c2;
                      h2 = candidate_u cl this t h1;
                      d = axial_of_u cl frustum h2
                  in if t \<ge> Num 0 \<and> d \<ge> Num 0 \<and> d \<le> height frustum
                     then (Some (cl_target2 cl), copy_to_target cl target (store_hit cl frustum h2))
                     else (None, h2))
               else
                 (let root = Math_sqrt discr;
                      t0 = ((- c1) - root) / c2;
                      h2 = candidate_u cl this t0 h1;
                      d0 = axial_of_u cl frustum h2;
                      (h3, quantity1) =
                        (if t0 \<ge> Num 0 \<and> d0 \<ge> Num 0 \<and> d0 \<le> height frustum
                         then (store_hit cl frustum h2, Suc 0)
                         else (h2, 0));
                      t1 = ((- c1) + root) / c2;
                      h4 = candidate_u cl this t1 h3;
                      d1 = axial_of_u cl frustum h4;
                      (h5, quantity2) =
                        (if t1 \<ge> Num 0 \<and> (quantity1 = 0 \<or> t0 > t1) \<and>
                            d1 \<ge> Num 0 \<and> d1 \<le> height frustum
                         then (store_hit cl frustum h4, Suc quantity1)
                         else (h4, quantity1))
                  in if quantity2 \<noteq> 0 then (Some (cl_target2 cl), copy_to_target cl target h5)
                     else (None, h5)))
         else if \<not> strict_eq c1 (Num 0) then
           (let t = Num (- 2) * c0 / c1;
                h2 = candidate_u cl this t h1;
                d = axial_of_u cl frustum h2
            in if t \<ge> Num 0 \<and> d \<ge> Num 0 \<and> d \<le> height frustum
               then (Some target, copy_to_target cl target (store_hit cl frustum h2))
               else (None, h2))
         else (None, h1))"

text \<open>
  The vectors \<open>D\<close> and \<open>u\<close> never leave the closure, so in every call they are
  objects of the store other than each other, than \<open>target2\<close>, and than anything the
  caller passes.
\<close>

definition closure_private :: "closure \<Rightarrow> ref Ray \<Rightarrow> ref ConeFrustum \<Rightarrow> ref option \<Rightarrow> heap \<Rightarrow> bool" where
  "closure_private cl this frustum target_arg h =
     (cl_D cl < length h \<and> cl_u cl < length h \<and> cl_target2 cl < length h \<and>
      origin this < length h \<and> direction this < length h \<and>
      base frustum < length h \<and> axis frustum < length h \<and>
      cl_D cl \<noteq> cl_u cl \<and> cl_D cl \<noteq> cl_target2 cl \<and> cl_u cl \<noteq> cl_target2 cl \<and>
      cl_D cl \<noteq> origin this \<and> cl_D cl \<noteq> direction this \<and>
      cl_D cl \<noteq> base frustum \<and> cl_D cl \<noteq> axis frustum \<and>
      cl_u cl \<noteq> origin this \<and> cl_u cl \<noteq> direction this \<and>
      cl_u cl \<noteq> base frustum \<and> cl_u cl \<noteq> axis frustum \<and>
      (case target_arg of None \<Rightarrow> True
       | Some r \<Rightarrow> r < length h \<and> r \<noteq> cl_D cl \<and> r \<noteq> cl_u cl))"

text \<open>
  The caller has not built the direction of the ray, or the base or the axis of the
  frustum, on the vector that an earlier call returned.
\<close>

definition result_unshared :: "closure \<Rightarrow> ref Ray \<Rightarrow> ref ConeFrustum \<Rightarrow> bool" where
  "result_unshared cl this frustum =
     (cl_target2 cl \<noteq> direction this \<and> cl_target2 cl \<noteq> base frustum \<and>
      cl_target2 cl \<noteq> axis frustum)"

text \<open>
  The numbers the function computes first (lines 132 to 148, 170 and 180), as functions
  of the values the ray and the frustum hold on entry; the theorems speak of them.
\<close>

definition coef_deltaR :: "Vector3 ConeFrustum \<Rightarrow> number" where
  "coef_deltaR frustum = radius1 frustum - radius0 frustum"

definition coef_r :: "Vector3 ConeFrustum \<Rightarrow> number" where
  "coef_r frustum = Num 1 + Math_pow2 (coef_deltaR frustum / height frustum)"

definition coef_R :: "Vector3 ConeFrustum \<Rightarrow> number" where
  "coef_R frustum = radius0 frustum * coef_deltaR frustum / height frustum"

definition vec_D :: "Vector3 Ray \<Rightarrow> Vector3 ConeFrustum \<Rightarrow> Vector3" where
  "vec_D this frustum = subVectors (origin this) (base frustum)"

definition coef_c0 :: "Vector3 Ray \<Rightarrow> Vector3 ConeFrustum \<Rightarrow> number" where
  "coef_c0 this frustum =
     (let r = coef_r frustum; R = coef_R frustum; D = vec_D this frustum;
          DdA = dot D (axis frustum); DdD = dot D D
      in radius0 frustum * radius0 frustum + Num 2 * R * DdA + r * DdA * DdA - DdD)"

definition coef_c1 :: "Vector3 Ray \<Rightarrow> Vector3 ConeFrustum \<Rightarrow> number" where
  "coef_c1 this frustum =
     (let r = coef_r frustum; R = coef_R frustum; D = vec_D this frustum;
          DdA = dot D (axis frustum); VdA = dot (direction this) (axis frustum);
          VdD = dot (direction this) D
      in R * VdA + r * DdA * VdA - VdD)"

definition coef_c2 :: "Vector3 Ray \<Rightarrow> Vector3 ConeFrustum \<Rightarrow> number" where
  "coef_c2 this frustum =
     (let r = coef_r frustum; VdA = dot (direction this) (axis frustum);
          VdV = dot (direction this) (direction this)
      in r * VdA * VdA - VdV)"

definition quad_discr :: "Vector3 Ray \<Rightarrow> Vector3 ConeFrustum \<Rightarrow> number" where
  "quad_discr this frustum =
     coef_c1 this frustum * coef_c1 this frustum - coef_c2 this frustum * coef_c0 this frustum"

definition quad_t0 :: "Vector3 Ray \<Rightarrow> Vector3 ConeFrustum \<Rightarrow> number" where
  "quad_t0 this frustum =
     ((- coef_c1 this frustum) - Math_sqrt (quad_discr this frustum)) / coef_c2 this frustum"

definition quad_t1 :: "Vector3 Ray \<Rightarrow> Vector3 ConeFrustum \<Rightarrow> number" where
  "quad_t1 this frustum =
     ((- coef_c1 this frustum) + Math_sqrt (quad_discr this frustum)) / coef_c2 this frustum"

text \<open>
  While \<open>D\<close> holds \<open>origin - base\<close> and the direction, the base and the axis hold
  what they held on entry, the coefficients and every candidate are those of the values on
  entry.
\<close>

definition kept :: "closure \<Rightarrow> ref Ray \<Rightarrow> ref ConeFrustum \<Rightarrow> heap \<Rightarrow> heap \<Rightarrow> bool" where
  "kept cl this frustum h hh =
     (length hh = length h \<and>
      hh ! cl_D cl = subVectors (h ! origin this) (h ! base frustum) \<and>
      hh ! direction this = h ! direction this \<and>
      hh ! base frustum = h ! base frustum \<and>
      hh ! axis frustum = h ! axis frustum)"

section \<open>What the specification says, as definitions\<close>

text \<open>
  The unit-length tolerance of the specification, and its bounding box: the union of two
  boxes, box \<open>i\<close> centred on the centre of end cap \<open>i\<close> with half-extents
  \<open>radius_i * (|axis.x|, |axis.y|, |axis.z|)\<close>. These follow the specification's
  words, to be compared with what the code computes.
\<close>

definition near_unit :: "number \<Rightarrow> bool" where
  "near_unit l = (Num (1 - 1 / 1000000) \<le> l \<and> l \<le> Num (1 + 1 / 1000000))"

fun Math_abs :: "number \<Rightarrow> number" where
  "Math_abs (Num a) = Num \<bar>a\<bar>"
| "Math_abs PosInf = PosInf"
| "Math_abs NegInf = PosInf"
| "Math_abs NaN = NaN"

definition spec_cap_box :: "Vector3 \<Rightarrow> number \<Rightarrow> Vector3 \<Rightarrow> Box3" where
  "spec_cap_box center radius ax =
     (let e = vec (radius * Math_abs (vx ax)) (radius * Math_abs (vy ax)) (radius * Math_abs (vz ax))
      in \<lparr>min_b = subVectors center e, max_b = addVectors center e\<rparr>)"

definition spec_BoundingBox :: "Vector3 ConeFrustum \<Rightarrow> Box3" where
  "spec_BoundingBox F =
     union_b (spec_cap_box (base F) (radius0 F) (axis F))
             (spec_cap_box (addScaledVector (base F) (axis F) (height F)) (radius1 F) (axis F))"

section \<open>Concrete stores, frustums and rays\<close>

text \<open>A store whose only vector is the zero vector, passed as the axis.\<close>

definition zero_axis_heap :: heap where
  "zero_axis_heap = [vec (Num 0) (Num 0) (Num 0)]"

text \<open>A store whose only vector has length 2.\<close>

definition long_axis_heap :: heap where
  "long_axis_heap = [vec (Num 0) (Num 2) (Num 0)]"

text \<open>The caller's base (object 0) and axis (object 1).\<close>

definition shared_heap :: heap where
  "shared_heap = [vec (Num 5) (Num 0) (Num 0), vec (Num 0) (Num 2) (Num 0)]"

text \<open>One centre, used as both ends of a capsule; and two centres four apart.\<close>

definition same_point_heap :: heap where
  "same_point_heap = [vec (Num 1) (Num 2) (Num 3)]"

definition capsule_heap :: heap where
  "capsule_heap = [vec (Num 0) (Num 0) (Num 0), vec (Num 0) (Num 4) (Num 0)]"

text \<open>
  A cone with its apex at the base: \<open>new ConeFrustum(new Vector3(0, 0, 0),
  new Vector3(0, 1, 0), 2, 0, 1)\<close>.
\<close>

definition apex_frustum :: "Vector3 ConeFrustum" where
  "apex_frustum = \<lparr>base = vec (Num 0) (Num 0) (Num 0), axis = vec (Num 0) (Num 1) (Num 0),
                    height = Num 2, radius0 = Num 0, radius1 = Num 1\<rparr>"

text \<open>
  The closure of \<open>intersectsConeFrustum\<close>: its vectors \<open>D\<close>, \<open>target2\<close> and
  \<open>u\<close> are the first three objects of the store, in the order the source allocates them.
\<close>

definition the_closure :: closure where
  "the_closure = \<lparr>cl_D = 0, cl_target2 = 1, cl_u = 2\<rparr>"

text \<open>
  A store with the closure's three vectors and the caller's: objects 3 and 4 are a ray
  that crosses the y axis at height 5, objects 5 and 6 the origin and the y axis, objects 7
  and 8 a ray of direction \<open>(1, 1, 0)\<close>, object 9 a point beside the axis, object 10 the
  origin again, object 11 the y direction again and object 12 the point \<open>(0.5, 0, 0)\<close>.
\<close>

definition ray_heap :: heap where
  "ray_heap =
     [vec (Num 0) (Num 0) (Num 0), vec (Num 0) (Num 0) (Num 0), vec (Num 0) (Num 0) (Num 0),
      vec (Num (- 2)) (Num 5) (Num 0), vec (Num 1) (Num 0) (Num 0),
      vec (Num 0) (Num 0) (Num 0), vec (Num 0) (Num 1) (Num 0),
      vec (Num (- 3)) (Num 0) (Num 0), vec (Num 1) (Num 1) (Num 0),
      vec (Num 3) (Num (- 1)) (Num 0),
      vec (Num 0) (Num 0) (Num 0), vec (Num 0) (Num 1) (Num 0),
      vec (Num (1 / 2)) (Num 0) (Num 0)]"

definition cross_ray :: "ref Ray" where
  "cross_ray = \<lparr>origin = 3, direction = 4\<rparr>"

definition slant_ray :: "ref Ray" where
  "slant_ray = \<lparr>origin = 7, direction = 8\<rparr>"

definition behind_ray :: "ref Ray" where
  "behind_ray = \<lparr>origin = 10, direction = 8\<rparr>"

definition axis_ray :: "ref Ray" where
  "axis_ray = \<lparr>origin = 9, direction = 11\<rparr>"

definition steep_ray :: "ref Ray" where
  "steep_ray = \<lparr>origin = 12, direction = 11\<rparr>"

text \<open>
  On base 5 and axis 6: a cylinder of radius 1 and height 10, a cone of slope 1 and height
  10, and the same cone cut at height 3.
\<close>

definition cyl_frustum :: "ref ConeFrustum" where
  "cyl_frustum = \<lparr>base = 5, axis = 6, height = Num 10, radius0 = Num 1, radius1 = Num 1\<rparr>"

definition cone_frustum :: "ref ConeFrustum" where
  "cone_frustum = \<lparr>base = 5, axis = 6, height = Num 10, radius0 = Num 1, radius1 = Num 11\<rparr>"

definition short_cone :: "ref ConeFrustum" where
  "short_cone = \<lparr>base = 5, axis = 6, height = Num 3, radius0 = Num 1, radius1 = Num 4\<rparr>"

text \<open>
  The constructor takes any numbers as radii. With \<open>radius0 = -1\<close> and \<open>radius1 = 1\<close>
  over height 2 the surface is the double cone with its apex at height 1, and a ray along
  the axis direction meets it once below and once above the apex.
\<close>

definition double_cone :: "ref ConeFrustum" where
  "double_cone = \<lparr>base = 5, axis = 6, height = Num 2, radius0 = Num (- 1), radius1 = Num 1\<rparr>"

text \<open>
  A store in which an earlier call has left the point \<open>(-1, 5, 0)\<close> in \<open>target2\<close>
  (object 1), and the caller has built a cylinder on it: \<open>new ConeFrustum(hit,
  new Vector3(0, 1, 0), 10, 1, 1)\<close> keeps \<open>hit\<close> as its base. Objects 3 and 4 are the
  ray from \<open>(-3, 10, 0)\<close> in direction \<open>(1, 0, 0)\<close>, object 5 the axis.
\<close>

definition alias_heap :: heap where
  "alias_heap =
     [vec (Num 0) (Num 0) (Num 0), vec (Num (- 1)) (Num 5) (Num 0), vec (Num 0) (Num 0) (Num 0),
      vec (Num (- 3)) (Num 10) (Num 0), vec (Num 1) (Num 0) (Num 0),
      vec (Num 0) (Num 1) (Num 0)]"

definition alias_ray :: "ref Ray" where
  "alias_ray = \<lparr>origin = 3, direction = 4\<rparr>"

definition alias_frustum :: "ref ConeFrustum" where
  "alias_frustum = \<lparr>base = 1, axis = 5, height = Num 10, radius0 = Num 1, radius1 = Num 1\<rparr>"

text \<open>
  A cylinder of radius 1 and height 9.5 far from the origin of the coordinates: its base
  (object 5) is \<open>(0, 1e16, 0)\<close>, its axis (object 6) the y direction. Objects 3 and 4 are
  the ray from \<open>(-2, 1e16 + 8, 0)\<close> in direction \<open>(1, 1.5, 0)\<close>. All these numbers are
  doubles: between \<open>2^53\<close> and \<open>2^54\<close> the doubles are the even integers.
\<close>

definition far_heap :: heap where
  "far_heap =
     [vec (Num 0) (Num 0) (Num 0), vec (Num 0) (Num 0) (Num 0), vec (Num 0) (Num 0) (Num 0),
      vec (Num (- 2)) (Num 10000000000000008) (Num 0), vec (Num 1) (Num (3 / 2)) (Num 0),
      vec (Num 0) (Num 10000000000000000) (Num 0), vec (Num 0) (Num 1) (Num 0)]"

definition far_ray :: "ref Ray" where
  "far_ray = \<lparr>origin = 3, direction = 4\<rparr>"

definition far_frustum :: "ref ConeFrustum" where
  "far_frustum = \<lparr>base = 5, axis = 6, height = Num (19 / 2), radius0 = Num 1, radius1 = Num 1\<rparr>"

text \<open>
  Two doubles whose squares are not finite non-zero doubles: \<open>2^600\<close>, whose square
  overflows, and \<open>2^-600\<close>, whose square underflows to 0. A store whose only vector is
  \<open>(2^600, 0, 0)\<close>, one whose only vector is \<open>(2^-600, 0, 0)\<close>, and one with two centres
  \<open>2^-600\<close> apart.
\<close>

definition huge :: real where
  "huge = 2 ^ 600"

definition tiny :: real where
  "tiny = 1 / 2 ^ 600"

definition huge_axis_heap :: heap where
  "huge_axis_heap = [vec (Num huge) (Num 0) (Num 0)]"

definition tiny_axis_heap :: heap where
  "tiny_axis_heap = [vec (Num tiny) (Num 0) (Num 0)]"

definition close_capsule_heap :: heap where
  "close_capsule_heap = [vec (Num 0) (Num 0) (Num 0), vec (Num tiny) (Num 0) (Num 0)]"

text \<open>A store whose only vector is \<open>(3, 1, 2)\<close>, of length \<open>sqrt 14\<close>.\<close>

definition skew_axis_heap :: heap where
  "skew_axis_heap = [vec (Num 3) (Num 1) (Num 2)]"

section \<open>Rounding\<close>

lemma round_even_of_int: "round_even (of_int n) = n"
  by (simp add: round_even_def)

lemma round_even_err: "\<bar>of_int (round_even r) - r\<bar> \<le> 1 / 2"
  unfolding round_even_def Let_def by (auto; linarith)

lemma round_even_nonneg: "0 \<le> r \<Longrightarrow> 0 \<le> round_even r"
  unfolding round_even_def Let_def by (auto simp add: add_nonneg_nonneg)

lemma round_even_nonpos: "r \<le> 0 \<Longrightarrow> round_even r \<le> 0"
proof -
  assume r: "r \<le> 0"
  have f0: "\<lfloor>r\<rfloor> \<le> 0" using r by (simp add: floor_le_iff)
  have "r - of_int \<lfloor>r\<rfloor> \<noteq> 0 \<Longrightarrow> \<lfloor>r\<rfloor> + 1 \<le> 0"
  proof -
    assume "r - of_int \<lfloor>r\<rfloor> \<noteq> 0"
    moreover have "of_int \<lfloor>r\<rfloor> \<le> r" by simp
    ultimately have "real_of_int \<lfloor>r\<rfloor> < 0" using r by linarith
    then have "\<lfloor>r\<rfloor> < 0" by (simp only: of_int_less_0_iff)
    then show ?thesis by linarith
  qed
  then show ?thesis unfolding round_even_def Let_def using f0 by auto
qed

lemma quantum_pos: "0 < quantum x"
  by (simp add: quantum_def)

lemma powr_succ: "(2::real) powr (real_of_int k + 1) = 2 powi (k + 1)"
  using powr_real_of_int'[of 2 "k + 1"] by simp

lemma binade:
  assumes "x \<noteq> 0"
  shows "2 powi \<lfloor>log 2 \<bar>x\<bar>\<rfloor> \<le> \<bar>x\<bar>" "\<bar>x\<bar> < 2 powi (\<lfloor>log 2 \<bar>x\<bar>\<rfloor> + 1)"
proof -
  have "0 < \<bar>x\<bar>" using assms by simp
  then have "2 powr real_of_int \<lfloor>log 2 \<bar>x\<bar>\<rfloor> \<le> \<bar>x\<bar> \<and> \<bar>x\<bar> < 2 powr real_of_int (\<lfloor>log 2 \<bar>x\<bar>\<rfloor> + 1)"
    using floor_log_eq_powr_iff[of "\<bar>x\<bar>" 2 "\<lfloor>log 2 \<bar>x\<bar>\<rfloor>"] by simp
  then show "2 powi \<lfloor>log 2 \<bar>x\<bar>\<rfloor> \<le> \<bar>x\<bar>" "\<bar>x\<bar> < 2 powi (\<lfloor>log 2 \<bar>x\<bar>\<rfloor> + 1)"
    by (simp_all add: powr_real_of_int' powr_succ)
qed

lemma binade_unique:
  assumes "2 powi k \<le> \<bar>x\<bar>" "\<bar>x\<bar> < 2 powi (k + 1)"
  shows "\<lfloor>log 2 \<bar>x\<bar>\<rfloor> = k"
proof -
  have "0 < (2::real) powi k" by simp
  with assms(1) have pos: "0 < \<bar>x\<bar>" by linarith
  have "2 powr real_of_int k \<le> \<bar>x\<bar> \<and> \<bar>x\<bar> < 2 powr real_of_int (k + 1)"
    using assms by (simp add: powr_real_of_int' powr_succ)
  then show ?thesis using floor_log_eq_powr_iff[OF pos, of 2 k] by simp
qed


lemma quantum_normal:
  assumes "2 powi k \<le> \<bar>x\<bar>" "\<bar>x\<bar> < 2 powi (k + 1)" "- 1022 \<le> k"
  shows "quantum x = 2 powi (k - 52)"
proof -
  have "(2::real) powi (- 1022) \<le> 2 powi k"
    using assms(3) by (intro power_int_increasing) simp_all
  with assms(1) have "\<not> \<bar>x\<bar> < 2 powi (- 1022)" by linarith
  then show ?thesis
    unfolding quantum_def using binade_unique[OF assms(1,2)] by simp
qed

lemma quantum_le:
  assumes "2 powi (- 1022) \<le> \<bar>x\<bar>"
  shows "quantum x \<le> \<bar>x\<bar> * 2 powi (- 52)"
proof -
  have "0 < (2::real) powi (- 1022)" by simp
  with assms have nz: "x \<noteq> 0" by auto
  have "quantum x = 2 powi (\<lfloor>log 2 \<bar>x\<bar>\<rfloor> - 52)"
    using assms unfolding quantum_def by simp
  also have "\<dots> = 2 powi \<lfloor>log 2 \<bar>x\<bar>\<rfloor> * 2 powi (- 52)"
    using power_int_add[of "2::real" "\<lfloor>log 2 \<bar>x\<bar>\<rfloor>" "- 52"] by simp
  also have "\<dots> \<le> \<bar>x\<bar> * 2 powi (- 52)"
    by (intro mult_right_mono binade(1)[OF nz]) simp
  finally show ?thesis .
qed

lemma rnd_exact:
  assumes x: "x = of_int m * 2 powi e" and m: "\<bar>m\<bar> < 2 ^ 53" and e: "- 1074 \<le> e"
    and fin: "\<bar>x\<bar> < 2 powi 1024"
  shows "rnd x = Num x"
proof -
  have "\<exists>n::int. x / quantum x = of_int n"
  proof (cases "\<bar>x\<bar> < 2 powi (- 1022)")
    case True
    then have q: "quantum x = 2 powi (- 1074)" by (simp add: quantum_def)
    have "x / quantum x = x / 2 powi (- 1074)" by (simp only: q)
    also have "\<dots> = of_int m * (2 powi e / 2 powi (- 1074))"
      by (simp only: x times_divide_eq_right)
    also have "2 powi e / 2 powi (- 1074) = (2::real) powi (e + 1074)"
      using power_int_diff[of "2::real" e "- 1074"] by (simp only: diff_minus_eq_add) simp
    also have "\<dots> = 2 ^ nat (e + 1074)" using e by (simp add: power_int_nonneg_exp)
    finally have "x / quantum x = of_int (m * 2 ^ nat (e + 1074))" by simp
    then show ?thesis by blast
  next
    case False
    then have big: "2 powi (- 1022) \<le> \<bar>x\<bar>" by simp
    have "0 < (2::real) powi (- 1022)" by simp
    with big have nz: "x \<noteq> 0" by auto
    define k where "k = \<lfloor>log 2 \<bar>x\<bar>\<rfloor>"
    have q: "quantum x = 2 powi (k - 52)" using False by (simp add: quantum_def k_def)
    have "2 powi k \<le> \<bar>x\<bar>" unfolding k_def by (rule binade(1)[OF nz])
    also have "\<bar>x\<bar> = of_int \<bar>m\<bar> * 2 powi e" unfolding x by (simp add: abs_mult)
    also have "\<dots> < 2 ^ 53 * 2 powi e"
    proof (rule mult_strict_right_mono)
      have "real_of_int \<bar>m\<bar> < real_of_int (2 ^ 53)" using m by (simp only: of_int_less_iff)
      then show "real_of_int \<bar>m\<bar> < 2 ^ 53" by simp
    qed simp
    also have "\<dots> = 2 powi (e + 53)"
      using power_int_add[of "2::real" e 53] by simp
    finally have lt: "(2::real) powi k < 2 powi (e + 53)" .
    have "k < e + 53"
    proof (rule ccontr)
      assume "\<not> k < e + 53"
      then have "(2::real) powi (e + 53) \<le> 2 powi k"
        by (intro power_int_increasing) simp_all
      with lt show False by linarith
    qed
    then have ge: "0 \<le> e - k + 52" by simp
    have "x / quantum x = x / 2 powi (k - 52)" by (simp only: q)
    also have "\<dots> = of_int m * (2 powi e / 2 powi (k - 52))"
      by (simp only: x times_divide_eq_right)
    also have "2 powi e / 2 powi (k - 52) = (2::real) powi (e - k + 52)"
      using power_int_diff[of "2::real" e "k - 52"] by (simp add: algebra_simps)
    also have "\<dots> = 2 ^ nat (e - k + 52)" using ge by (simp add: power_int_nonneg_exp)
    finally have "x / quantum x = of_int (m * 2 ^ nat (e - k + 52))" by simp
    then show ?thesis by blast
  qed
  then obtain n :: int where n: "x / quantum x = of_int n" by blast
  have "of_int n * quantum x = x"
    using n quantum_pos[of x] by (simp add: field_simps)
  then show ?thesis
    unfolding rnd_def Let_def n round_even_of_int using fin by simp
qed

lemma rnd_err:
  assumes "\<bar>x\<bar> \<le> 2 powi 1023"
  shows "\<exists>y. rnd x = Num y \<and> \<bar>y - x\<bar> \<le> quantum x / 2 \<and> (0 \<le> x \<longrightarrow> 0 \<le> y) \<and> (x \<le> 0 \<longrightarrow> y \<le> 0)"
proof -
  define q where "q = quantum x"
  define n where "n = round_even (x / q)"
  define y where "y = of_int n * q"
  have qpos: "0 < q" unfolding q_def by (rule quantum_pos)
  have "\<bar>of_int n - x / q\<bar> \<le> 1 / 2" unfolding n_def by (rule round_even_err)
  then have "\<bar>of_int n - x / q\<bar> * q \<le> 1 / 2 * q"
    using qpos by (intro mult_right_mono) simp_all
  moreover have "\<bar>of_int n - x / q\<bar> * q = \<bar>y - x\<bar>"
  proof -
    have "\<bar>of_int n - x / q\<bar> * q = \<bar>(of_int n - x / q) * q\<bar>"
      using qpos by (simp add: abs_mult)
    also have "(of_int n - x / q) * q = y - x"
      unfolding y_def using qpos by (simp add: field_simps)
    finally show ?thesis .
  qed
  ultimately have err: "\<bar>y - x\<bar> \<le> q / 2" by simp
  have qle: "q \<le> 2 powi 971"
  proof (cases "\<bar>x\<bar> < 2 powi (- 1022)")
    case True
    then have "q = 2 powi (- 1074)" by (simp add: q_def quantum_def)
    also have "\<dots> \<le> (2::real) powi 971" by (intro power_int_increasing) simp_all
    finally show ?thesis .
  next
    case False
    then have "q \<le> \<bar>x\<bar> * 2 powi (- 52)" unfolding q_def by (intro quantum_le) simp
    also have "\<dots> \<le> 2 powi 1023 * 2 powi (- 52)"
      using assms by (intro mult_right_mono) simp_all
    also have "\<dots> = (2::real) powi 971"
      using power_int_add[of "2::real" 1023 "- 52"] by simp
    finally show ?thesis .
  qed
  have "\<bar>y\<bar> \<le> \<bar>x\<bar> + \<bar>y - x\<bar>" by linarith
  also have "\<dots> \<le> 2 powi 1023 + 2 powi 971 / 2" using assms err qle by linarith
  also have "\<dots> < (2::real) powi 1024" by simp
  finally have fin: "\<not> 2 powi 1024 \<le> \<bar>y\<bar>" by simp
  have r: "rnd x = Num y"
    unfolding rnd_def Let_def using fin by (simp add: y_def n_def q_def)
  have s1: "0 \<le> x \<longrightarrow> 0 \<le> y"
  proof
    assume "0 \<le> x"
    then have "0 \<le> x / q" using qpos by simp
    then have "0 \<le> n" unfolding n_def by (rule round_even_nonneg)
    then show "0 \<le> y" unfolding y_def using qpos by simp
  qed
  have s2: "x \<le> 0 \<longrightarrow> y \<le> 0"
  proof
    assume "x \<le> 0"
    then have "x / q \<le> 0" using qpos by (simp add: divide_nonpos_pos)
    then have "n \<le> 0" unfolding n_def by (rule round_even_nonpos)
    then show "y \<le> 0" unfolding y_def using qpos by (simp add: mult_nonpos_nonneg)
  qed
  from r err s1 s2 show ?thesis unfolding q_def by blast
qed


text \<open>Integers below \<open>2^53\<close> and their halves, quarters and eighths are doubles.\<close>

lemma rnd_0 [simp]: "rnd 0 = Num 0"
  using rnd_exact[of 0 0 0] by simp

lemma rnd_1 [simp]: "rnd 1 = Num 1"
  using rnd_exact[of 1 1 0] by simp

lemma rnd_neg_1 [simp]: "rnd (- 1) = Num (- 1)"
  using rnd_exact[of "- 1" "- 1" 0] by simp

lemma rnd_numeral [simp]:
  assumes "(numeral w :: int) < 2 ^ 53"
  shows "rnd (numeral w) = Num (numeral w)"
proof -
  have "real_of_int (numeral w) < real_of_int (2 ^ 53)" using assms by (simp only: of_int_less_iff)
  then have "(numeral w :: real) < 2 ^ 53" by simp
  also have "\<dots> < 2 powi 1024" by simp
  finally have "\<bar>numeral w :: real\<bar> < 2 powi 1024" by simp
  with rnd_exact[of "numeral w" "numeral w" 0] assms show ?thesis by simp
qed

lemma rnd_neg_numeral [simp]:
  assumes "(numeral w :: int) < 2 ^ 53"
  shows "rnd (- numeral w) = Num (- numeral w)"
proof -
  have "real_of_int (numeral w) < real_of_int (2 ^ 53)" using assms by (simp only: of_int_less_iff)
  then have "(numeral w :: real) < 2 ^ 53" by simp
  also have "\<dots> < 2 powi 1024" by simp
  finally have "\<bar>- numeral w :: real\<bar> < 2 powi 1024" by simp
  with rnd_exact[of "- numeral w" "- numeral w" 0] assms show ?thesis by simp
qed

lemma rnd_dyadic:
  assumes "\<bar>m\<bar> < 2 ^ 53" "k \<le> 1074"
  shows "rnd (of_int m / 2 ^ k) = Num (of_int m / 2 ^ k)"
proof -
  have e: "of_int m / 2 ^ k = of_int m * (2::real) powi (- int k)"
    by (simp add: power_int_minus field_simps)
  have "\<bar>of_int m / 2 ^ k :: real\<bar> = of_int \<bar>m\<bar> / 2 ^ k" by simp
  also have "\<dots> \<le> of_int \<bar>m\<bar>" by (simp add: field_simps mult_le_cancel_left1)
  also have "\<dots> < real_of_int (2 ^ 53)" using assms(1) by (simp only: of_int_less_iff)
  also have "\<dots> < 2 powi 1024" by simp
  finally have "\<bar>of_int m / 2 ^ k :: real\<bar> < 2 powi 1024" .
  with rnd_exact[OF e assms(1)] assms(2) show ?thesis by simp
qed

lemma rnd_half [simp]: "rnd (1 / 2) = Num (1 / 2)"
  using rnd_dyadic[of 1 1] by simp

lemma rnd_quarter [simp]: "rnd (1 / 4) = Num (1 / 4)"
  using rnd_dyadic[of 1 2] by simp

lemma rnd_div2 [simp]:
  assumes "(numeral w :: int) < 2 ^ 53"
  shows "rnd (numeral w / 2) = Num (numeral w / 2)" "rnd (- (numeral w / 2)) = Num (- (numeral w / 2))"
  using rnd_dyadic[of "numeral w" 1] rnd_dyadic[of "- numeral w" 1] assms by simp_all

lemma rnd_div4 [simp]:
  assumes "(numeral w :: int) < 2 ^ 53"
  shows "rnd (numeral w / 4) = Num (numeral w / 4)" "rnd (- (numeral w / 4)) = Num (- (numeral w / 4))"
  using rnd_dyadic[of "numeral w" 2] rnd_dyadic[of "- numeral w" 2] assms by simp_all

text \<open>
  A sum that is not a double: \<open>1e16 + 9.5\<close> lies between the doubles \<open>1e16 + 8\<close> and
  \<open>1e16 + 10\<close>, nearer to the second.
\<close>

lemma rnd_far [simp]: "rnd (20000000000000019 / 2) = Num 10000000000000010"
proof -
  have q: "quantum (20000000000000019 / 2) = 2"
    using quantum_normal[of 53 "20000000000000019 / 2"] by simp
  have f: "\<lfloor>20000000000000019 / 4 :: real\<rfloor> = 5000000000000004" by simp
  have r: "round_even (20000000000000019 / 4) = 5000000000000005"
    unfolding round_even_def Let_def f by simp
  show ?thesis unfolding rnd_def q Let_def using r by simp
qed

text \<open>Underflow to zero, overflow to infinity, and the error of a rounding.\<close>

lemma round_even_ge_floor: "\<lfloor>r\<rfloor> \<le> round_even r"
  unfolding round_even_def Let_def by simp

lemma round_even_small:
  assumes "\<bar>r\<bar> < 1 / 2"
  shows "round_even r = 0"
proof (cases "0 \<le> r")
  case True
  then have f: "\<lfloor>r\<rfloor> = 0" using assms by (simp add: floor_eq_iff)
  show ?thesis unfolding round_even_def Let_def f using assms True by simp
next
  case False
  then have f: "\<lfloor>r\<rfloor> = - 1" using assms by (simp add: floor_eq_iff)
  show ?thesis unfolding round_even_def Let_def f using assms False by simp
qed

lemma rnd_underflow:
  assumes "\<bar>x\<bar> < 2 powi (- 1075)"
  shows "rnd x = Num 0"
proof -
  have "(2::real) powi (- 1075) < 2 powi (- 1022)" by (intro power_int_strict_increasing) simp_all
  with assms have q: "quantum x = 2 powi (- 1074)" by (simp add: quantum_def)
  have "(2::real) powi (- 1074) = 2 * 2 powi (- 1075)"
    using power_int_add[of "2::real" 1 "- 1075"] by simp
  then have "\<bar>x / 2 powi (- 1074)\<bar> < 1 / 2"
    using assms by (simp add: field_simps abs_mult)
  then have "round_even (x / 2 powi (- 1074)) = 0" by (rule round_even_small)
  then show ?thesis unfolding rnd_def q Let_def by simp
qed

lemma rnd_overflow:
  assumes "2 powi 1024 \<le> x"
  shows "rnd x = PosInf"
proof -
  define k where "k = \<lfloor>log 2 \<bar>x\<bar>\<rfloor>"
  have pos: "0 < x" using assms zero_less_power_int[of "2::real" 1024] by linarith
  then have nz: "x \<noteq> 0" by simp
  have b: "2 powi k \<le> x" "x < 2 powi (k + 1)"
    using binade[OF nz] pos unfolding k_def by simp_all
  have "(2::real) powi 1024 < 2 powi (k + 1)" using assms b(2) by linarith
  have k: "1024 \<le> k"
  proof (rule ccontr)
    assume "\<not> 1024 \<le> k"
    then have "k + 1 \<le> 1024" by simp
    then have "(2::real) powi (k + 1) \<le> 2 powi 1024" by (intro power_int_increasing) simp_all
    with \<open>(2::real) powi 1024 < 2 powi (k + 1)\<close> show False by linarith
  qed
  have q: "quantum x = 2 powi (k - 52)"
    using quantum_normal[of k x] b pos k by simp
  have "x / 2 powi (k - 52) \<ge> 2 powi k / 2 powi (k - 52)"
    using b(1) by (simp add: divide_right_mono)
  also have "2 powi k / 2 powi (k - 52) = (2::real) powi 52"
    using power_int_diff[of "2::real" k "k - 52"] by simp
  finally have "real_of_int (2 ^ 52) \<le> x / 2 powi (k - 52)" by simp
  then have "2 ^ 52 \<le> \<lfloor>x / 2 powi (k - 52)\<rfloor>" by (simp only: le_floor_iff)
  then have n: "2 ^ 52 \<le> round_even (x / 2 powi (k - 52))"
    using round_even_ge_floor[of "x / 2 powi (k - 52)"] by linarith
  have "2 powi 1024 \<le> (2::real) powi k" using k by (intro power_int_increasing) simp_all
  also have "\<dots> = 2 powi 52 * 2 powi (k - 52)"
    using power_int_add[of "2::real" 52 "k - 52"] by simp
  also have "\<dots> \<le> of_int (round_even (x / 2 powi (k - 52))) * 2 powi (k - 52)"
  proof (rule mult_right_mono)
    have "real_of_int (2 ^ 52) \<le> of_int (round_even (x / 2 powi (k - 52)))"
      using n by (simp only: of_int_le_iff)
    then show "2 powi 52 \<le> real_of_int (round_even (x / 2 powi (k - 52)))" by simp
  qed simp
  finally have big: "2 powi 1024 \<le> real_of_int (round_even (x / 2 powi (k - 52))) * 2 powi (k - 52)" .
  have "0 \<le> real_of_int (round_even (x / 2 powi (k - 52))) * 2 powi (k - 52)"
    using big zero_less_power_int[of "2::real" 1024] by linarith
  then show ?thesis unfolding rnd_def q Let_def using big pos by simp
qed

lemma rnd_abs:
  assumes "\<bar>x\<bar> \<le> 2 powi 1023"
  shows "\<exists>y. rnd x = Num y \<and> \<bar>y - x\<bar> \<le> \<bar>x\<bar> * 2 powi (- 53) + 2 powi (- 1075) \<and>
             (0 \<le> x \<longrightarrow> 0 \<le> y) \<and> (x \<le> 0 \<longrightarrow> y \<le> 0)"
proof -
  from rnd_err[OF assms] obtain y where y: "rnd x = Num y" "\<bar>y - x\<bar> \<le> quantum x / 2"
    "0 \<le> x \<longrightarrow> 0 \<le> y" "x \<le> 0 \<longrightarrow> y \<le> 0" by blast
  have h53: "(2::real) powi (- 52) / 2 = 2 powi (- 53)"
    using power_int_add[of "2::real" "- 53" 1] by simp
  have h1075: "(2::real) powi (- 1074) / 2 = 2 powi (- 1075)"
    using power_int_add[of "2::real" "- 1075" 1] by simp
  have "quantum x / 2 \<le> \<bar>x\<bar> * 2 powi (- 53) + 2 powi (- 1075)"
  proof (cases "\<bar>x\<bar> < 2 powi (- 1022)")
    case True
    then have "quantum x / 2 = 2 powi (- 1075)" using h1075 by (simp add: quantum_def)
    moreover have "0 \<le> \<bar>x\<bar> * 2 powi (- 53)" by simp
    ultimately show ?thesis by linarith
  next
    case False
    then have "quantum x \<le> \<bar>x\<bar> * 2 powi (- 52)" by (intro quantum_le) simp
    then have "quantum x / 2 \<le> \<bar>x\<bar> * (2 powi (- 52) / 2)" by simp
    then have "quantum x / 2 \<le> \<bar>x\<bar> * 2 powi (- 53)" unfolding h53 .
    moreover have "0 \<le> (2::real) powi (- 1075)" by simp
    ultimately show ?thesis by linarith
  qed
  with y show ?thesis by (intro exI[of _ y]) auto
qed

lemma rnd_rel:
  assumes "2 powi (- 1022) \<le> \<bar>x\<bar>" "\<bar>x\<bar> \<le> 2 powi 1023"
  shows "\<exists>y. rnd x = Num y \<and> \<bar>y - x\<bar> \<le> \<bar>x\<bar> * 2 powi (- 53) \<and>
             (0 \<le> x \<longrightarrow> 0 \<le> y) \<and> (x \<le> 0 \<longrightarrow> y \<le> 0)"
proof -
  from rnd_err[OF assms(2)] obtain y where y: "rnd x = Num y" "\<bar>y - x\<bar> \<le> quantum x / 2"
    "0 \<le> x \<longrightarrow> 0 \<le> y" "x \<le> 0 \<longrightarrow> y \<le> 0" by blast
  have h53: "(2::real) powi (- 52) / 2 = 2 powi (- 53)"
    using power_int_add[of "2::real" "- 53" 1] by simp
  have "quantum x \<le> \<bar>x\<bar> * 2 powi (- 52)" using assms(1) by (rule quantum_le)
  then have "quantum x / 2 \<le> \<bar>x\<bar> * (2 powi (- 52) / 2)" by simp
  then have "quantum x / 2 \<le> \<bar>x\<bar> * 2 powi (- 53)" unfolding h53 .
  with y show ?thesis by (intro exI[of _ y]) auto
qed

section \<open>Vectors by components\<close>

lemma vec_sel: "vx (vec a b c) = a" "vy (vec a b c) = b" "vz (vec a b c) = c"
  by (simp_all add: vec_def)

lemma vec_inject: "vec a b c = vec a' b' c' \<longleftrightarrow> a = a' \<and> b = b' \<and> c = c'"
  by (simp add: vec_def)

lemma vec_eta: "vec (vx v) (vy v) (vz v) = v"
  by (simp add: vec_def)

section \<open>Emptiness\<close>

text \<open>
  C3. For every frustum, \<open>empty()\<close> is true if and only if the height is the number
  zero, or both radii are the number zero; in all other cases it is false.
\<close>

theorem empty_iff:
  "empty_f F = (height F = Num 0 \<or> (radius0 F = Num 0 \<and> radius1 F = Num 0))"
  by (auto simp add: empty_f_def strict_eq_def)

section \<open>Defaults of the constructor\<close>

text \<open>
  C9. A numeric zero passed for \<open>height\<close>, \<open>radius0\<close> or \<open>radius1\<close> gives the
  same frustum (and the same store) as omitting that argument: the height becomes 1 and
  the radii 0. In particular a call with height 0 gives a frustum of height 1.
\<close>

theorem constructor_zero_is_omitted:
  "constructor b a (Some (Num 0)) r0 r1 h = constructor b a None r0 r1 h \<and>
   constructor b a hg (Some (Num 0)) r1 h = constructor b a hg None r1 h \<and>
   constructor b a hg r0 (Some (Num 0)) h = constructor b a hg r0 None h \<and>
   height (fst (constructor b a (Some (Num 0)) r0 r1 h)) = Num 1 \<and>
   radius0 (fst (constructor b a hg (Some (Num 0)) r1 h)) = Num 0 \<and>
   radius1 (fst (constructor b a hg r0 (Some (Num 0)) h)) = Num 0"
  by (simp add: constructor_def or_default_def truthy_def split: prod.splits option.splits)

section \<open>Cloning\<close>

text \<open>
  C4 says that \<open>clone()\<close> returns a new frustum equal to the original. The code
  returns the value of \<open>copy\<close>, which returns nothing: for every frustum and store
  \<open>clone()\<close> is \<open>undefined\<close>, and \<open>F.equals(F.clone())\<close> throws a TypeError instead
  of being true.
\<close>

theorem clone_returns_undefined:
  "fst (clone F h) = Undefined \<and>
   equals F (fst (clone F h)) (snd (clone F h)) = Inl TypeError"
  by (simp add: clone_def copy_def equals_def Let_def split: prod.splits)

text \<open>
  The copy itself is made: the frustum that \<open>copy\<close> has filled in, and that
  \<open>clone\<close> drops, holds two fresh vectors with the values of the original's.
\<close>

lemma copy_makes_fresh_vectors:
  assumes "base F < length h" "axis F < length h"
  shows "(case copy G F h of (ret, G', h') \<Rightarrow>
           ret = Undefined \<and> base G' = length h \<and> axis G' = Suc (length h) \<and>
           take (length h) h' = h \<and>
           deref h' G' = deref h F)"
  using assms
  by (simp add: copy_def new_Vector3_def deref_def nth_append)

section \<open>Who owns the vectors\<close>

text \<open>
  C10 says that a frustum does not share its vectors with the caller and that
  construction does not mutate the caller's vectors. The constructor keeps the objects
  it is given. With a base (object 0) and an axis (object 1) of length 2: the frustum's
  base and axis are objects 0 and 1, the caller's axis has been normalized in place, and
  a later write to object 0 is a write to the frustum's base.
\<close>

theorem constructor_shares_counterexample:
  "base (fst (constructor (Some 0) (Some 1) None None None shared_heap)) = 0 \<and>
   axis (fst (constructor (Some 0) (Some 1) None None None shared_heap)) = 1 \<and>
   shared_heap ! 1 = vec (Num 0) (Num 2) (Num 0) \<and>
   snd (constructor (Some 0) (Some 1) None None None shared_heap) ! 1 = vec (Num 0) (Num 1) (Num 0) \<and>
   base (deref ((snd (constructor (Some 0) (Some 1) None None None shared_heap))[0 := vec (Num 7) (Num 7) (Num 7)])
               (fst (constructor (Some 0) (Some 1) None None None shared_heap)))
     = vec (Num 7) (Num 7) (Num 7)"
  by (simp add: constructor_def shared_heap_def deref_def normalize_v_def length_v_def
        or_default_def truthy_def divideScalar_def multiplyScalar_def vec_def)

text \<open>
  C10, amended. The constructor keeps the vector objects it is given: the frustum's base
  and axis are those very objects, the supplied axis is normalized in place, and no other
  vector of the store changes. \<open>fromCapsule\<close> keeps \<open>center0\<close> itself as the base,
  gives the frustum an axis allocated by the call, and changes no vector that existed
  before the call, so \<open>center0\<close> and \<open>center1\<close> keep their values.
\<close>

theorem construction_aliasing:
  "base (fst (constructor (Some b) (Some a) hg r0 r1 h)) = b \<and>
   axis (fst (constructor (Some b) (Some a) hg r0 r1 h)) = a \<and>
   snd (constructor (Some b) (Some a) hg r0 r1 h) = h[a := normalize_v (h ! a)] \<and>
   base (fst (fromCapsule c0 q0 c1 q1 h)) = c0 \<and>
   axis (fst (fromCapsule c0 q0 c1 q1 h)) = Suc (length h) \<and>
   length h < length (snd (fromCapsule c0 q0 c1 q1 h)) \<and>
   take (length h) (snd (fromCapsule c0 q0 c1 q1 h)) = h"
  by (simp add: constructor_def fromCapsule_def new_Vector3_def)

section \<open>Normalization of the axis\<close>

text \<open>
  The error of \<open>length()\<close> and of \<open>normalize()\<close> on a vector whose components are at
  most \<open>2^500\<close> in absolute value and whose exact length is at least \<open>2^-500\<close>: no
  square overflows, and the sum of the squares is far above the underflow threshold, so
  every rounding has a relative error of at most \<open>2^-53\<close> apart from an absolute error
  of \<open>2^-1075\<close>.
\<close>

lemma u_val: "(2::real) powi (- 53) = 1 / 9007199254740992"
  by (simp add: power_int_minus)

lemma sumsq_arith:
  fixes A B C sa sb sc s1 s2 e :: real
  assumes "0 \<le> A" "0 \<le> B" "0 \<le> C" "0 \<le> e"
    and "\<bar>sa - A\<bar> \<le> A / 9007199254740992 + e"
    and "\<bar>sb - B\<bar> \<le> B / 9007199254740992 + e"
    and "\<bar>sc - C\<bar> \<le> C / 9007199254740992 + e"
    and "\<bar>s1 - (sa + sb)\<bar> \<le> sa / 9007199254740992 + sb / 9007199254740992 + e"
    and "\<bar>s2 - (s1 + sc)\<bar> \<le> s1 / 9007199254740992 + sc / 9007199254740992 + e"
    and "e \<le> A / 1180591620717411303424 + B / 1180591620717411303424 + C / 1180591620717411303424"
  shows "\<bar>s2 - (A + B + C)\<bar> \<le> A / 1125899906842624 + B / 1125899906842624 + C / 1125899906842624"
proof -
  have a: "sa \<le> A + A / 9007199254740992 + e" "A - A / 9007199254740992 - e \<le> sa"
    using assms(5) by linarith+
  have b: "sb \<le> B + B / 9007199254740992 + e" "B - B / 9007199254740992 - e \<le> sb"
    using assms(6) by linarith+
  have c: "sc \<le> C + C / 9007199254740992 + e" "C - C / 9007199254740992 - e \<le> sc"
    using assms(7) by linarith+
  have d: "s1 \<le> sa + sb + sa / 9007199254740992 + sb / 9007199254740992 + e"
    "sa + sb - sa / 9007199254740992 - sb / 9007199254740992 - e \<le> s1"
    using assms(8) by linarith+
  have f: "s2 \<le> s1 + sc + s1 / 9007199254740992 + sc / 9007199254740992 + e"
    "s1 + sc - s1 / 9007199254740992 - sc / 9007199254740992 - e \<le> s2"
    using assms(9) by linarith+
  have up: "s2 - (A + B + C) \<le> A / 1125899906842624 + B / 1125899906842624 + C / 1125899906842624"
    using a b c d f assms(1-4,10) by linarith
  have lo: "- (s2 - (A + B + C)) \<le> A / 1125899906842624 + B / 1125899906842624 + C / 1125899906842624"
    using a b c d f assms(1-4,10) by linarith
  show ?thesis using up lo by linarith
qed


lemma rnd_nonneg:
  assumes "0 \<le> x" "x \<le> 2 powi 1023"
  shows "\<exists>y. rnd x = Num y \<and> 0 \<le> y \<and> \<bar>y - x\<bar> \<le> x / 9007199254740992 + 2 powi (- 1075)"
proof -
  have "\<bar>x\<bar> \<le> 2 powi 1023" using assms by simp
  from rnd_abs[OF this] obtain y where "rnd x = Num y"
    "\<bar>y - x\<bar> \<le> \<bar>x\<bar> * 2 powi (- 53) + 2 powi (- 1075)" "0 \<le> x \<longrightarrow> 0 \<le> y" by blast
  then show ?thesis using assms(1) by (intro exI[of _ y]) (simp add: u_val)
qed

lemma square_le:
  fixes x :: real
  assumes "\<bar>x\<bar> \<le> 2 powi 500"
  shows "x * x \<le> 2 powi 1000"
proof -
  have "x * x = \<bar>x\<bar> * \<bar>x\<bar>" by simp
  also have "\<dots> \<le> 2 powi 500 * 2 powi 500" using assms by (intro mult_mono) simp_all
  also have "\<dots> = (2::real) powi 1000" using power_int_add[of "2::real" 500 500] by simp
  finally show ?thesis .
qed

lemma sumsq:
  fixes a b c :: real
  assumes "\<bar>a\<bar> \<le> 2 powi 500" "\<bar>b\<bar> \<le> 2 powi 500" "\<bar>c\<bar> \<le> 2 powi 500"
    and lo: "2 powi (- 1000) \<le> a * a + b * b + c * c"
  shows "\<exists>s. Num a * Num a + Num b * Num b + Num c * Num c = Num s \<and>
             \<bar>s - (a * a + b * b + c * c)\<bar> \<le> (a * a + b * b + c * c) / 1125899906842624"
proof -
  define T where "T = (2::real) powi 1000"
  define e where "e = (2::real) powi (- 1075)"
  have T: "a * a \<le> T" "b * b \<le> T" "c * c \<le> T"
    unfolding T_def using assms(1-3) by (simp_all only: square_le)
  have big: "2 powi 1023 = 8388608 * T"
    unfolding T_def using power_int_add[of "2::real" 23 1000] by simp
  have T1: "1 \<le> T" unfolding T_def by (rule one_le_power_int) simp_all
  have "e \<le> 2 powi 0" unfolding e_def by (intro power_int_increasing) simp_all
  then have e0: "0 \<le> e" "e \<le> 1" unfolding e_def by simp_all
  have "e = 2 powi (- 1000) * 2 powi (- 75)"
    unfolding e_def using power_int_add[of "2::real" "- 1000" "- 75"] by simp
  also have "\<dots> \<le> (a * a + b * b + c * c) * 2 powi (- 75)"
    using lo by (intro mult_right_mono) simp_all
  finally have e75: "e \<le> a * a / 37778931862957161709568 + b * b / 37778931862957161709568
                  + c * c / 37778931862957161709568"
    by (simp add: power_int_minus add_divide_distrib)
  have nn: "0 \<le> a * a" "0 \<le> b * b" "0 \<le> c * c" by simp_all
  obtain sa where sa: "rnd (a * a) = Num sa" "0 \<le> sa" "\<bar>sa - a * a\<bar> \<le> a * a / 9007199254740992 + e"
    using rnd_nonneg[OF nn(1)] T(1) T1 unfolding big e_def by (auto simp: )
  obtain sb where sb: "rnd (b * b) = Num sb" "0 \<le> sb" "\<bar>sb - b * b\<bar> \<le> b * b / 9007199254740992 + e"
    using rnd_nonneg[OF nn(2)] T(2) T1 unfolding big e_def by (auto simp: )
  obtain sc where sc: "rnd (c * c) = Num sc" "0 \<le> sc" "\<bar>sc - c * c\<bar> \<le> c * c / 9007199254740992 + e"
    using rnd_nonneg[OF nn(3)] T(3) T1 unfolding big e_def by (auto simp: )
  have ua: "sa \<le> 2 * T + 1" using sa(3) T(1) nn(1) e0 by linarith
  have ub: "sb \<le> 2 * T + 1" using sb(3) T(2) nn(2) e0 by linarith
  have uc: "sc \<le> 2 * T + 1" using sc(3) T(3) nn(3) e0 by linarith
  have "sa + sb \<le> 2 powi 1023" unfolding big using ua ub T1 by linarith
  from rnd_nonneg[OF _ this] sa(2) sb(2)
  obtain s1 where s1: "rnd (sa + sb) = Num s1" "0 \<le> s1"
    "\<bar>s1 - (sa + sb)\<bar> \<le> sa / 9007199254740992 + sb / 9007199254740992 + e"
    unfolding e_def by (auto simp add: add_divide_distrib)
  have u1: "s1 \<le> 8 * T + 5" using s1(3) ua ub sa(2) sb(2) e0 by linarith
  have "s1 + sc \<le> 2 powi 1023" unfolding big using u1 uc T1 by linarith
  from rnd_nonneg[OF _ this] s1(2) sc(2)
  obtain s2 where s2: "rnd (s1 + sc) = Num s2" "0 \<le> s2"
    "\<bar>s2 - (s1 + sc)\<bar> \<le> s1 / 9007199254740992 + sc / 9007199254740992 + e"
    unfolding e_def by (auto simp add: add_divide_distrib)
  have e70: "e \<le> a * a / 1180591620717411303424 + b * b / 1180591620717411303424
                + c * c / 1180591620717411303424"
    using e75 nn by linarith
  have "\<bar>s2 - (a * a + b * b + c * c)\<bar> \<le>
        a * a / 1125899906842624 + b * b / 1125899906842624 + c * c / 1125899906842624"
    by (rule sumsq_arith[OF nn e0(1) sa(3) sb(3) sc(3) s1(3) s2(3) e70])
  then have "\<bar>s2 - (a * a + b * b + c * c)\<bar> \<le> (a * a + b * b + c * c) / 1125899906842624"
    by (simp add: add_divide_distrib)
  moreover have "Num a * Num a + Num b * Num b + Num c * Num c = Num s2"
    by (simp add: sa(1) sb(1) sc(1) s1(1) s2(1))
  ultimately show ?thesis by blast
qed


lemma sqrt_rel:
  fixes s S eps :: real
  assumes "0 \<le> S" "\<bar>s - S\<bar> \<le> S * eps" "0 \<le> eps" "eps \<le> 1"
  shows "\<bar>sqrt s - sqrt S\<bar> \<le> sqrt S * eps"
proof -
  have "1 + eps \<le> (1 + eps) * (1 + eps)" using assms(3) by (simp add: mult_left_mono)
  then have "S * (1 + eps) \<le> S * ((1 + eps) * (1 + eps))"
    using assms(1) by (rule mult_left_mono)
  moreover have "s \<le> S * (1 + eps)" using assms(2) by (simp add: algebra_simps abs_le_iff)
  ultimately have "s \<le> S * ((1 + eps) * (1 + eps))" by linarith
  then have "sqrt s \<le> sqrt (S * ((1 + eps) * (1 + eps)))" by (rule real_sqrt_le_mono)
  also have "\<dots> = sqrt S * (1 + eps)" using assms(3) by (simp add: real_sqrt_mult)
  finally have up: "sqrt s \<le> sqrt S * (1 + eps)" .
  have "(1 - eps) * (1 - eps) \<le> 1 - eps"
    using assms(3,4) by (intro mult_left_le_one_le) simp_all
  then have "S * ((1 - eps) * (1 - eps)) \<le> S * (1 - eps)"
    using assms(1) by (rule mult_left_mono)
  moreover have "S * (1 - eps) \<le> s" using assms(2) by (simp add: algebra_simps abs_le_iff)
  ultimately have "S * ((1 - eps) * (1 - eps)) \<le> s" by linarith
  then have "sqrt (S * ((1 - eps) * (1 - eps))) \<le> sqrt s" by (rule real_sqrt_le_mono)
  moreover have "sqrt (S * ((1 - eps) * (1 - eps))) = sqrt S * (1 - eps)"
    using assms(4) by (simp add: real_sqrt_mult)
  ultimately have lo: "sqrt S * (1 - eps) \<le> sqrt s" by simp
  show ?thesis using up lo by (simp add: algebra_simps abs_le_iff)
qed

lemma sqrt_powi: "sqrt (2 powi (2 * k)) = 2 powi k"
proof (rule real_sqrt_unique)
  show "(2 powi k)\<^sup>2 = (2::real) powi (2 * k)"
    using power_int_add[of "2::real" k k] by (simp add: power2_eq_square)
  show "0 \<le> (2::real) powi k" by simp
qed

lemma length_bound:
  fixes a b c :: real
  assumes "\<bar>a\<bar> \<le> 2 powi 500" "\<bar>b\<bar> \<le> 2 powi 500" "\<bar>c\<bar> \<le> 2 powi 500"
    and lo: "2 powi (- 1000) \<le> a * a + b * b + c * c"
  shows "\<exists>l. length_v (vec (Num a) (Num b) (Num c)) = Num l \<and>
             \<bar>l - sqrt (a * a + b * b + c * c)\<bar> \<le> sqrt (a * a + b * b + c * c) / 562949953421312"
proof -
  define S where "S = a * a + b * b + c * c"
  define L where "L = sqrt S"
  from sumsq[OF assms] obtain s where s:
    "Num a * Num a + Num b * Num b + Num c * Num c = Num s"
    "\<bar>s - S\<bar> \<le> S / 1125899906842624" unfolding S_def by blast
  have Spos: "0 < S"
    using lo zero_less_power_int[of "2::real" "- 1000"] unfolding S_def by linarith
  have s0: "0 \<le> s" using s(2) Spos by linarith
  have "\<bar>sqrt s - sqrt S\<bar> \<le> sqrt S * (1 / 1125899906842624)"
    using s(2) Spos by (intro sqrt_rel) simp_all
  then have r: "\<bar>sqrt s - L\<bar> \<le> L / 1125899906842624" unfolding L_def by simp
  have "sqrt (2 powi (2 * (- 500))) \<le> sqrt S"
    using lo unfolding S_def by (intro real_sqrt_le_mono) simp
  then have Llo: "2 powi (- 500) \<le> L" unfolding L_def sqrt_powi .
  have "S \<le> 2 powi 1000 + 2 powi 1000 + 2 powi 1000"
    unfolding S_def using square_le[OF assms(1)] square_le[OF assms(2)] square_le[OF assms(3)]
    by linarith
  also have "\<dots> \<le> 4 * 2 powi 1000" by simp
  also have "\<dots> = (2::real) powi (2 * 501)" using power_int_add[of "2::real" 2 1000] by simp
  finally have "sqrt S \<le> sqrt (2 powi (2 * 501))" by (rule real_sqrt_le_mono)
  then have Lhi: "L \<le> 2 powi 501" unfolding L_def sqrt_powi .
  have p1: "(2::real) powi (- 1022) \<le> 2 powi (- 500) / 2"
  proof -
    have "(2::real) powi (- 1022) \<le> 2 powi (- 501)" by (intro power_int_increasing) simp_all
    also have "\<dots> = 2 powi (- 500) / 2" using power_int_add[of "2::real" "- 501" 1] by simp
    finally show ?thesis .
  qed
  have p2: "2 * (2::real) powi 501 \<le> 2 powi 1023"
  proof -
    have "2 * (2::real) powi 501 = 2 powi 502" using power_int_add[of "2::real" 1 501] by simp
    also have "\<dots> \<le> 2 powi 1023" by (intro power_int_increasing) simp_all
    finally show ?thesis .
  qed
  have L0: "0 < L" using Llo zero_less_power_int[of "2::real" "- 500"] by linarith
  have rs: "L / 2 \<le> sqrt s" "sqrt s \<le> 2 * L" using r L0 by linarith+
  have "2 powi (- 1022) \<le> \<bar>sqrt s\<bar>" "\<bar>sqrt s\<bar> \<le> 2 powi 1023"
    using rs p1 p2 Llo Lhi L0 by linarith+
  from rnd_rel[OF this] obtain l where l: "rnd (sqrt s) = Num l"
    "\<bar>l - sqrt s\<bar> \<le> \<bar>sqrt s\<bar> * 2 powi (- 53)" by blast
  have l': "\<bar>l - sqrt s\<bar> \<le> sqrt s / 9007199254740992"
    using l(2) rs L0 by (simp add: u_val)
  have "\<bar>l - L\<bar> \<le> L / 562949953421312" using l' r L0 by linarith
  moreover have "length_v (vec (Num a) (Num b) (Num c)) = Num l"
    unfolding length_v_def vec_sel s(1) using s0 l(1) by simp
  ultimately show ?thesis unfolding L_def S_def by blast
qed


lemma comp_bound:
  fixes x k L :: real
  assumes "\<bar>x\<bar> \<le> L" "0 < L" "\<bar>k * L - 1\<bar> \<le> 1 / 281474976710656"
  shows "\<exists>y. Num x * Num k = Num y \<and> \<bar>y - x / L\<bar> \<le> 1 / 140737488355328"
proof -
  have xl: "\<bar>x / L\<bar> \<le> 1" using assms(1,2) by simp
  have "x * k - x / L = (x / L) * (k * L - 1)" using assms(2) by (simp add: field_simps)
  then have "\<bar>x * k - x / L\<bar> = \<bar>x / L\<bar> * \<bar>k * L - 1\<bar>" by (simp only: abs_mult)
  also have "\<dots> \<le> 1 * (1 / 281474976710656)"
    using xl assms(3) by (intro mult_mono) simp_all
  finally have d: "\<bar>x * k - x / L\<bar> \<le> 1 / 281474976710656" by simp
  then have xk: "\<bar>x * k\<bar> \<le> 2" using xl by linarith
  have "(2::real) = 2 powi 1" by simp
  also have "\<dots> \<le> 2 powi 1023" by (intro power_int_increasing) simp_all
  finally have "\<bar>x * k\<bar> \<le> 2 powi 1023" using xk by linarith
  from rnd_abs[OF this] obtain y where y: "rnd (x * k) = Num y"
    "\<bar>y - x * k\<bar> \<le> \<bar>x * k\<bar> * 2 powi (- 53) + 2 powi (- 1075)" by blast
  have "(2::real) powi (- 1075) \<le> 2 powi (- 53)" by (intro power_int_increasing) simp_all
  then have "\<bar>y - x * k\<bar> \<le> \<bar>x * k\<bar> / 9007199254740992 + 1 / 9007199254740992"
    using y(2) by (simp add: u_val)
  then have "\<bar>y - x / L\<bar> \<le> 1 / 140737488355328" using d xk by linarith
  with y(1) show ?thesis by (intro exI[of _ y]) simp
qed

lemma abs_le_length:
  fixes a b c :: real
  shows "\<bar>a\<bar> \<le> sqrt (a * a + b * b + c * c)" "\<bar>b\<bar> \<le> sqrt (a * a + b * b + c * c)"
    "\<bar>c\<bar> \<le> sqrt (a * a + b * b + c * c)"
proof -
  have "\<bar>a\<bar>\<^sup>2 \<le> a * a + b * b + c * c" "\<bar>b\<bar>\<^sup>2 \<le> a * a + b * b + c * c"
    "\<bar>c\<bar>\<^sup>2 \<le> a * a + b * b + c * c"
    by (simp_all add: power2_eq_square)
  then show "\<bar>a\<bar> \<le> sqrt (a * a + b * b + c * c)" "\<bar>b\<bar> \<le> sqrt (a * a + b * b + c * c)"
    "\<bar>c\<bar> \<le> sqrt (a * a + b * b + c * c)"
    by (simp_all only: real_le_rsqrt)
qed

lemma normalize_bound:
  fixes a b c :: real
  assumes "\<bar>a\<bar> \<le> 2 powi 500" "\<bar>b\<bar> \<le> 2 powi 500" "\<bar>c\<bar> \<le> 2 powi 500"
    and lo: "2 powi (- 1000) \<le> a * a + b * b + c * c"
  shows "\<exists>a' b' c'. normalize_v (vec (Num a) (Num b) (Num c)) = vec (Num a') (Num b') (Num c') \<and>
           \<bar>a' - a / sqrt (a * a + b * b + c * c)\<bar> \<le> 1 / 140737488355328 \<and>
           \<bar>b' - b / sqrt (a * a + b * b + c * c)\<bar> \<le> 1 / 140737488355328 \<and>
           \<bar>c' - c / sqrt (a * a + b * b + c * c)\<bar> \<le> 1 / 140737488355328"
proof -
  define L where "L = sqrt (a * a + b * b + c * c)"
  from length_bound[OF assms] obtain l where l:
    "length_v (vec (Num a) (Num b) (Num c)) = Num l" "\<bar>l - L\<bar> \<le> L / 562949953421312"
    unfolding L_def by blast
  have "sqrt (2 powi (2 * (- 500))) \<le> L"
    using lo unfolding L_def by (intro real_sqrt_le_mono) simp
  then have Llo: "2 powi (- 500) \<le> L" unfolding sqrt_powi .
  then have L0: "0 < L" using zero_less_power_int[of "2::real" "- 500"] by linarith
  have "a * a + b * b + c * c \<le> 2 powi 1000 + 2 powi 1000 + 2 powi 1000"
    using square_le[OF assms(1)] square_le[OF assms(2)] square_le[OF assms(3)] by linarith
  also have "\<dots> \<le> 4 * 2 powi 1000" by simp
  also have "\<dots> = (2::real) powi (2 * 501)" using power_int_add[of "2::real" 2 1000] by simp
  finally have "L \<le> sqrt (2 powi (2 * 501))" unfolding L_def by (rule real_sqrt_le_mono)
  then have Lhi: "L \<le> 2 powi 501" unfolding sqrt_powi .
  have lb: "L / 2 \<le> l" "l \<le> 2 * L" using l(2) L0 by linarith+
  then have l0: "0 < l" using L0 by linarith
  have il: "1 / (2 * L) \<le> 1 / l" "1 / l \<le> 2 / L"
    using lb l0 L0 by (simp_all add: field_simps)
  have "(2::real) powi (- 1022) \<le> 2 powi (- 502)" by (intro power_int_increasing) simp_all
  also have "\<dots> = 1 / (2 * 2 powi 501)"
    using power_int_add[of "2::real" 1 501] by (simp add: power_int_minus field_simps)
  also have "\<dots> \<le> 1 / (2 * L)" using Lhi L0 by (simp add: field_simps)
  finally have "2 powi (- 1022) \<le> 1 / (2 * L)" .
  moreover have al: "\<bar>1 / l\<bar> = 1 / l" using l0 by simp
  ultimately have i1: "2 powi (- 1022) \<le> \<bar>1 / l\<bar>" using il(1) by linarith
  have "2 / L \<le> 2 / 2 powi (- 500)" using Llo L0 by (simp add: field_simps)
  also have "\<dots> = (2::real) powi 501"
    using power_int_add[of "2::real" 1 500] by (simp add: power_int_minus field_simps)
  also have "\<dots> \<le> 2 powi 1023" by (intro power_int_increasing) simp_all
  finally have "2 / L \<le> 2 powi 1023" .
  then have i2: "\<bar>1 / l\<bar> \<le> 2 powi 1023" using il(2) al by linarith
  from rnd_rel[OF i1 i2] obtain k where k: "rnd (1 / l) = Num k"
    "\<bar>k - 1 / l\<bar> \<le> \<bar>1 / l\<bar> * 2 powi (- 53)" by blast
  have "\<bar>k - 1 / l\<bar> * l \<le> (1 / l / 9007199254740992) * l"
    using k(2) l0 by (intro mult_right_mono) (simp_all add: u_val)
  moreover have "\<bar>k - 1 / l\<bar> * l = \<bar>k * l - 1\<bar>"
  proof -
    have "\<bar>k - 1 / l\<bar> * l = \<bar>(k - 1 / l) * l\<bar>" using l0 by (simp add: abs_mult)
    also have "(k - 1 / l) * l = k * l - 1" using l0 by (simp add: field_simps)
    finally show ?thesis .
  qed
  ultimately have nu: "\<bar>k * l - 1\<bar> \<le> 1 / 9007199254740992" using l0 by simp
  have "\<bar>l - L\<bar> / L \<le> (L / 562949953421312) / L"
    using l(2) L0 by (intro divide_right_mono) simp_all
  moreover have "\<bar>l - L\<bar> / L = \<bar>l / L - 1\<bar>"
  proof -
    have "\<bar>l - L\<bar> / L = \<bar>(l - L) / L\<bar>" using L0 by simp
    also have "(l - L) / L = l / L - 1" using L0 by (simp add: field_simps)
    finally show ?thesis .
  qed
  ultimately have rho: "\<bar>l / L - 1\<bar> \<le> 1 / 562949953421312" using L0 by simp
  define n where "n = k * l"
  define r where "r = l / L"
  have r0: "0 < r" unfolding r_def using l0 L0 by simp
  have nr: "\<bar>n - 1\<bar> \<le> 1 / 9007199254740992" "\<bar>r - 1\<bar> \<le> 1 / 562949953421312"
    unfolding n_def r_def using nu rho by simp_all
  have kap: "k * L = n / r" unfolding n_def r_def using l0 L0 by simp
  have "n \<le> r + r / 281474976710656" using nr by linarith
  then have "n \<le> (1 + 1 / 281474976710656) * r" by (simp add: algebra_simps)
  then have up: "n / r \<le> 1 + 1 / 281474976710656" using r0 by (simp only: pos_divide_le_eq)
  have "r - r / 281474976710656 \<le> n" using nr by linarith
  then have "(1 - 1 / 281474976710656) * r \<le> n" by (simp add: algebra_simps)
  then have low: "1 - 1 / 281474976710656 \<le> n / r" using r0 by (simp only: pos_le_divide_eq)
  have kappa: "\<bar>k * L - 1\<bar> \<le> 1 / 281474976710656" unfolding kap using up low by linarith
  have le: "\<bar>a\<bar> \<le> L" "\<bar>b\<bar> \<le> L" "\<bar>c\<bar> \<le> L"
    unfolding L_def by (rule abs_le_length)+
  from comp_bound[OF le(1) L0 kappa] obtain a' where a':
    "Num a * Num k = Num a'" "\<bar>a' - a / L\<bar> \<le> 1 / 140737488355328" by blast
  from comp_bound[OF le(2) L0 kappa] obtain b' where b':
    "Num b * Num k = Num b'" "\<bar>b' - b / L\<bar> \<le> 1 / 140737488355328" by blast
  from comp_bound[OF le(3) L0 kappa] obtain c' where c':
    "Num c * Num k = Num c'" "\<bar>c' - c / L\<bar> \<le> 1 / 140737488355328" by blast
  have "Num 1 / Num l = Num k" using l0 k(1) by simp
  then have "normalize_v (vec (Num a) (Num b) (Num c)) = vec (Num a') (Num b') (Num c')"
    unfolding normalize_v_def l(1) divideScalar_def multiplyScalar_def vec_sel
    using l0 a'(1) b'(1) c'(1) by (simp add: or_default_def truthy_def vec_def)
  with a'(2) b'(2) c'(2) show ?thesis unfolding L_def by blast
qed


lemma square_diff_bound:
  fixes x y :: real
  assumes "\<bar>x - y\<bar> \<le> 1 / 140737488355328" "\<bar>y\<bar> \<le> 1"
  shows "\<bar>x * x - y * y\<bar> \<le> 3 / 140737488355328"
proof -
  have "\<bar>x + y\<bar> \<le> 3" using assms by linarith
  have "x * x - y * y = (x - y) * (x + y)" by (simp add: algebra_simps)
  then have "\<bar>x * x - y * y\<bar> = \<bar>x - y\<bar> * \<bar>x + y\<bar>" by (simp only: abs_mult)
  also have "\<dots> \<le> (1 / 140737488355328) * 3"
    using assms(1) \<open>\<bar>x + y\<bar> \<le> 3\<close> by (intro mult_mono) simp_all
  finally show ?thesis by simp
qed

lemma unit_component:
  fixes p q r :: real
  assumes "p * p + q * q + r * r = 1"
  shows "\<bar>p\<bar> \<le> 1" "\<bar>q\<bar> \<le> 1" "\<bar>r\<bar> \<le> 1"
proof -
  have "\<bar>p\<bar> \<le> sqrt (p * p + q * q + r * r)" "\<bar>q\<bar> \<le> sqrt (p * p + q * q + r * r)"
    "\<bar>r\<bar> \<le> sqrt (p * p + q * q + r * r)"
    by (rule abs_le_length)+
  then show "\<bar>p\<bar> \<le> 1" "\<bar>q\<bar> \<le> 1" "\<bar>r\<bar> \<le> 1" unfolding assms by simp_all
qed

text \<open>A vector within \<open>2^-47\<close> of a unit vector in each component.\<close>

lemma close_to_unit:
  fixes a b c p q r :: real
  assumes "\<bar>a - p\<bar> \<le> 1 / 140737488355328" "\<bar>b - q\<bar> \<le> 1 / 140737488355328"
    "\<bar>c - r\<bar> \<le> 1 / 140737488355328" and unit: "p * p + q * q + r * r = 1"
  shows "\<bar>a\<bar> \<le> 2" "\<bar>b\<bar> \<le> 2" "\<bar>c\<bar> \<le> 2"
    "\<bar>a\<bar> \<le> 2 powi 500" "\<bar>b\<bar> \<le> 2 powi 500" "\<bar>c\<bar> \<le> 2 powi 500"
    "2 powi (- 1000) \<le> a * a + b * b + c * c"
    "\<bar>sqrt (a * a + b * b + c * c) - 1\<bar> \<le> 9 / 140737488355328"
proof -
  define S where "S = a * a + b * b + c * c"
  note pqr = unit_component[OF unit]
  have d: "\<bar>a * a - p * p\<bar> \<le> 3 / 140737488355328" "\<bar>b * b - q * q\<bar> \<le> 3 / 140737488355328"
    "\<bar>c * c - r * r\<bar> \<le> 3 / 140737488355328"
    using assms(1-3) pqr by (simp_all only: square_diff_bound)
  have S1: "\<bar>S - 1\<bar> \<le> 1 * (9 / 140737488355328)" unfolding S_def using d unit by linarith
  have "(2::real) = 2 powi 1" by simp
  also have "\<dots> \<le> 2 powi 500" by (intro power_int_increasing) simp_all
  finally have two: "(2::real) \<le> 2 powi 500" .
  show ab2: "\<bar>a\<bar> \<le> 2" "\<bar>b\<bar> \<le> 2" "\<bar>c\<bar> \<le> 2" using assms(1-3) pqr by linarith+
  then show "\<bar>a\<bar> \<le> 2 powi 500" "\<bar>b\<bar> \<le> 2 powi 500" "\<bar>c\<bar> \<le> 2 powi 500"
    using two by linarith+
  have "(2::real) powi (- 1000) \<le> 2 powi (- 1)" by (intro power_int_increasing) simp_all
  also have "\<dots> = 1 / 2" by (simp add: power_int_minus)
  finally have "2 powi (- 1000) \<le> S" using S1 by linarith
  then show "2 powi (- 1000) \<le> a * a + b * b + c * c" unfolding S_def .
  have "\<bar>sqrt S - sqrt 1\<bar> \<le> sqrt 1 * (9 / 140737488355328)"
    using S1 by (intro sqrt_rel) simp_all
  then show "\<bar>sqrt (a * a + b * b + c * c) - 1\<bar> \<le> 9 / 140737488355328"
    unfolding S_def by simp
qed

lemma near_unit_vec:
  fixes a b c p q r :: real
  assumes "\<bar>a - p\<bar> \<le> 1 / 140737488355328" "\<bar>b - q\<bar> \<le> 1 / 140737488355328"
    "\<bar>c - r\<bar> \<le> 1 / 140737488355328" and unit: "p * p + q * q + r * r = 1"
  shows "near_unit (length_v (vec (Num a) (Num b) (Num c))) \<and>
         \<bar>sqrt (a * a + b * b + c * c) - 1\<bar> \<le> 1 / 1000000"
proof -
  define S where "S = a * a + b * b + c * c"
  note u = close_to_unit[OF assms, folded S_def]
  from length_bound[OF u(4-6) u(7)[unfolded S_def]] obtain l where l:
    "length_v (vec (Num a) (Num b) (Num c)) = Num l" "\<bar>l - sqrt S\<bar> \<le> sqrt S / 562949953421312"
    unfolding S_def by blast
  have "1 - 1 / 1000000 \<le> l" "l \<le> 1 + 1 / 1000000" using l(2) u(8) by linarith+
  then have "near_unit (length_v (vec (Num a) (Num b) (Num c)))"
    unfolding l(1) near_unit_def by simp
  moreover have "\<bar>sqrt S - 1\<bar> \<le> 1 / 1000000" using u(8) by linarith
  ultimately show ?thesis unfolding S_def by blast
qed

lemma near_unit_normalize:
  fixes a b c :: real
  assumes "\<bar>a\<bar> \<le> 2 powi 500" "\<bar>b\<bar> \<le> 2 powi 500" "\<bar>c\<bar> \<le> 2 powi 500"
    and lo: "2 powi (- 1000) \<le> a * a + b * b + c * c"
  shows "\<exists>a' b' c'. normalize_v (vec (Num a) (Num b) (Num c)) = vec (Num a') (Num b') (Num c') \<and>
           near_unit (length_v (vec (Num a') (Num b') (Num c'))) \<and>
           \<bar>sqrt (a' * a' + b' * b' + c' * c') - 1\<bar> \<le> 1 / 1000000"
proof -
  define L where "L = sqrt (a * a + b * b + c * c)"
  from normalize_bound[OF assms] obtain a' b' c' where n:
    "normalize_v (vec (Num a) (Num b) (Num c)) = vec (Num a') (Num b') (Num c')"
    "\<bar>a' - a / L\<bar> \<le> 1 / 140737488355328" "\<bar>b' - b / L\<bar> \<le> 1 / 140737488355328"
    "\<bar>c' - c / L\<bar> \<le> 1 / 140737488355328"
    unfolding L_def by blast
  have Spos: "0 < a * a + b * b + c * c"
    using lo zero_less_power_int[of "2::real" "- 1000"] by linarith
  then have LL: "L * L = a * a + b * b + c * c" unfolding L_def by simp
  have L0: "0 < L" unfolding L_def using Spos by simp
  have "a / L * (a / L) + b / L * (b / L) + c / L * (c / L) = (a * a + b * b + c * c) / (L * L)"
    by (simp add: add_divide_distrib)
  also have "\<dots> = 1" unfolding LL using Spos by simp
  finally have unit: "a / L * (a / L) + b / L * (b / L) + c / L * (c / L) = 1" .
  from near_unit_vec[OF n(2-4) unit] n(1) show ?thesis by blast
qed

lemma max_bounds:
  fixes a b c :: real
  assumes "2 powi (- 500) \<le> max \<bar>a\<bar> (max \<bar>b\<bar> \<bar>c\<bar>)" "max \<bar>a\<bar> (max \<bar>b\<bar> \<bar>c\<bar>) \<le> 2 powi 500"
  shows "\<bar>a\<bar> \<le> 2 powi 500" "\<bar>b\<bar> \<le> 2 powi 500" "\<bar>c\<bar> \<le> 2 powi 500"
    "2 powi (- 1000) \<le> a * a + b * b + c * c"
proof -
  show "\<bar>a\<bar> \<le> 2 powi 500" "\<bar>b\<bar> \<le> 2 powi 500" "\<bar>c\<bar> \<le> 2 powi 500"
    using assms(2) by simp_all
  have sq: "2 powi (- 1000) \<le> x * x" if "2 powi (- 500) \<le> \<bar>x\<bar>" for x :: real
  proof -
    have "(2::real) powi (- 1000) = 2 powi (- 500) * 2 powi (- 500)"
      using power_int_add[of "2::real" "- 500" "- 500"] by simp
    also have "\<dots> \<le> \<bar>x\<bar> * \<bar>x\<bar>" using that by (intro mult_mono) simp_all
    finally show ?thesis by simp
  qed
  have nn: "0 \<le> a * a" "0 \<le> b * b" "0 \<le> c * c" by simp_all
  from assms(1) consider "2 powi (- 500) \<le> \<bar>a\<bar>" | "2 powi (- 500) \<le> \<bar>b\<bar>" | "2 powi (- 500) \<le> \<bar>c\<bar>"
    unfolding le_max_iff_disj by blast
  then show "2 powi (- 1000) \<le> a * a + b * b + c * c"
  proof cases
    case 1 from sq[OF 1] nn show ?thesis by linarith
  next
    case 2 from sq[OF 2] nn show ?thesis by linarith
  next
    case 3 from sq[OF 3] nn show ?thesis by linarith
  qed
qed

text \<open>
  Normalizing a second time, as \<open>fromCapsule\<close> followed by the constructor does, moves
  each component by at most 1e-12.
\<close>

lemma rescale_close:
  fixes x L :: real
  assumes "\<bar>x\<bar> \<le> 2" "\<bar>L - 1\<bar> \<le> 9 / 140737488355328"
  shows "\<bar>x / L - x\<bar> \<le> 36 / 140737488355328"
proof -
  have L: "1 / 2 \<le> L" using assms(2) by linarith
  then have L0: "0 < L" by linarith
  have "x / L - x = x * ((1 - L) / L)" using L0 by (simp add: field_simps)
  then have "\<bar>x / L - x\<bar> = \<bar>x\<bar> * (\<bar>1 - L\<bar> / L)" using L0 by (simp add: abs_mult)
  also have "\<dots> \<le> 2 * (18 / 140737488355328)"
  proof (rule mult_mono)
    have "\<bar>1 - L\<bar> / L \<le> \<bar>1 - L\<bar> / (1 / 2)"
      using L by (intro divide_left_mono) simp_all
    also have "\<dots> \<le> 18 / 140737488355328" using assms(2) by (simp add: abs_minus_commute)
    finally show "\<bar>1 - L\<bar> / L \<le> 18 / 140737488355328" .
  qed (use assms(1) L0 in simp_all)
  finally show ?thesis by simp
qed

lemma normalize_twice_close:
  fixes a b c :: real
  assumes "\<bar>a\<bar> \<le> 2 powi 500" "\<bar>b\<bar> \<le> 2 powi 500" "\<bar>c\<bar> \<le> 2 powi 500"
    and lo: "2 powi (- 1000) \<le> a * a + b * b + c * c"
  shows "\<exists>a1 b1 c1 a2 b2 c2.
           normalize_v (vec (Num a) (Num b) (Num c)) = vec (Num a1) (Num b1) (Num c1) \<and>
           normalize_v (normalize_v (vec (Num a) (Num b) (Num c))) = vec (Num a2) (Num b2) (Num c2) \<and>
           \<bar>a2 - a1\<bar> \<le> 1 / 1000000000000 \<and> \<bar>b2 - b1\<bar> \<le> 1 / 1000000000000 \<and>
           \<bar>c2 - c1\<bar> \<le> 1 / 1000000000000"
proof -
  define L where "L = sqrt (a * a + b * b + c * c)"
  from normalize_bound[OF assms] obtain a1 b1 c1 where n:
    "normalize_v (vec (Num a) (Num b) (Num c)) = vec (Num a1) (Num b1) (Num c1)"
    "\<bar>a1 - a / L\<bar> \<le> 1 / 140737488355328" "\<bar>b1 - b / L\<bar> \<le> 1 / 140737488355328"
    "\<bar>c1 - c / L\<bar> \<le> 1 / 140737488355328"
    unfolding L_def by blast
  have Spos: "0 < a * a + b * b + c * c"
    using lo zero_less_power_int[of "2::real" "- 1000"] by linarith
  then have LL: "L * L = a * a + b * b + c * c" unfolding L_def by simp
  have "a / L * (a / L) + b / L * (b / L) + c / L * (c / L) = (a * a + b * b + c * c) / (L * L)"
    by (simp add: add_divide_distrib)
  also have "\<dots> = 1" unfolding LL using Spos by simp
  finally have unit: "a / L * (a / L) + b / L * (b / L) + c / L * (c / L) = 1" .
  note u = close_to_unit[OF n(2-4) unit]
  define L1 where "L1 = sqrt (a1 * a1 + b1 * b1 + c1 * c1)"
  from normalize_bound[OF u(4-7)] obtain a2 b2 c2 where m:
    "normalize_v (vec (Num a1) (Num b1) (Num c1)) = vec (Num a2) (Num b2) (Num c2)"
    "\<bar>a2 - a1 / L1\<bar> \<le> 1 / 140737488355328" "\<bar>b2 - b1 / L1\<bar> \<le> 1 / 140737488355328"
    "\<bar>c2 - c1 / L1\<bar> \<le> 1 / 140737488355328"
    unfolding L1_def by blast
  note r = rescale_close[OF u(1) u(8)[folded L1_def]] rescale_close[OF u(2) u(8)[folded L1_def]]
    rescale_close[OF u(3) u(8)[folded L1_def]]
  have "\<bar>a2 - a1\<bar> \<le> 1 / 1000000000000" "\<bar>b2 - b1\<bar> \<le> 1 / 1000000000000"
    "\<bar>c2 - c1\<bar> \<le> 1 / 1000000000000"
    using m(2-4) r by linarith+
  with n(1) m(1) show ?thesis unfolding n(1) by blast
qed

lemma constructor_axis_Some:
  "p < length h \<Longrightarrow>
   axis (deref (snd (constructor b (Some p) hg r0 r1 h)) (fst (constructor b (Some p) hg r0 r1 h)))
   = normalize_v (h ! p)"
  by (cases b) (simp_all add: constructor_def new_Vector3_def deref_def nth_append)

lemma constructor_axis_None:
  "axis (deref (snd (constructor b None hg r0 r1 h)) (fst (constructor b None hg r0 r1 h)))
   = normalize_v (vec (Num 0) (Num 1) (Num 0))"
  by (cases b) (simp_all add: constructor_def new_Vector3_def deref_def nth_append)

lemma normalize_zero: "normalize_v (vec (Num 0) (Num 0) (Num 0)) = vec (Num 0) (Num 0) (Num 0)"
  by (simp add: normalize_v_def length_v_def divideScalar_def multiplyScalar_def vec_def
        or_default_def truthy_def)

lemma normalize_y: "normalize_v (vec (Num 0) (Num 1) (Num 0)) = vec (Num 0) (Num 1) (Num 0)"
  by (simp add: normalize_v_def length_v_def divideScalar_def multiplyScalar_def vec_def
        or_default_def truthy_def)

text \<open>
  Had the library divided the zero vector by its length with no guard, the result would
  be the vector of three \<open>NaN\<close>, whose length is \<open>NaN\<close>: not a unit length either.
\<close>

lemma unguarded_normalize_zero:
  "length_v (divideScalar (vec (Num 0) (Num 0) (Num 0)) (length_v (vec (Num 0) (Num 0) (Num 0)))) = NaN \<and>
   \<not> near_unit NaN"
  by (simp add: length_v_def divideScalar_def multiplyScalar_def vec_def near_unit_def)

text \<open>
  C5 says that the stored axis has unit length whatever vector is supplied. A supplied
  zero vector stays the zero vector: the stored axis has length 0, which is not within
  1e-6 of 1.
\<close>

theorem constructor_zero_axis_counterexample:
  "length_v (axis (deref (snd (constructor None (Some 0) None None None zero_axis_heap))
                         (fst (constructor None (Some 0) None None None zero_axis_heap)))) = Num 0 \<and>
   \<not> near_unit (length_v (axis (deref (snd (constructor None (Some 0) None None None zero_axis_heap))
                         (fst (constructor None (Some 0) None None None zero_axis_heap)))))"
  by (simp add: constructor_def zero_axis_heap_def new_Vector3_def normalize_zero deref_def near_unit_def)
   (simp add: length_v_def vec_def)

text \<open>
  The magnitude of a non-zero axis matters too. The square of \<open>2^600\<close> is
  \<open>Infinity\<close>, so the length of \<open>(2^600, 0, 0)\<close> is \<open>Infinity\<close>, its inverse is 0, and
  the stored axis is the zero vector. The square of \<open>2^-600\<close> is 0, so the length of
  \<open>(2^-600, 0, 0)\<close> is 0, \<open>length() || 1\<close> is 1, and the axis is stored as it was
  supplied: its length is \<open>2^-600\<close>, and 0 as \<open>length()\<close> computes it.
\<close>

lemma huge_square: "rnd (huge * huge) = PosInf"
proof -
  have "(2::real) powi 1024 \<le> 2 powi 1200" by (intro power_int_increasing) simp_all
  also have "\<dots> = huge * huge"
    unfolding huge_def using power_add[of "2::real" 600 600] by simp
  finally show ?thesis by (rule rnd_overflow)
qed

lemma tiny_square: "rnd (tiny * tiny) = Num 0"
proof -
  have "tiny * tiny = 1 / 2 ^ 1200"
    unfolding tiny_def using power_add[of "2::real" 600 600] by simp
  also have "\<dots> = 2 powi (- 1200)" by (simp add: power_int_minus field_simps)
  finally have t: "tiny * tiny = 2 powi (- 1200)" .
  have "(2::real) powi (- 1200) < 2 powi (- 1075)" by (intro power_int_strict_increasing) simp_all
  then have "\<bar>tiny * tiny\<bar> < 2 powi (- 1075)" unfolding t by simp
  then show ?thesis by (rule rnd_underflow)
qed

lemma tiny_double: "rnd tiny = Num tiny" "tiny \<noteq> 0"
  unfolding tiny_def using rnd_dyadic[of 1 600] by simp_all

lemma constructor_huge_axis:
  "axis (deref (snd (constructor None (Some 0) None None None huge_axis_heap))
               (fst (constructor None (Some 0) None None None huge_axis_heap)))
     = vec (Num 0) (Num 0) (Num 0) \<and>
   \<not> near_unit (length_v (axis (deref (snd (constructor None (Some 0) None None None huge_axis_heap))
               (fst (constructor None (Some 0) None None None huge_axis_heap)))))"
proof -
  have l: "length_v (vec (Num huge) (Num 0) (Num 0)) = PosInf"
    by (simp add: length_v_def vec_sel huge_square)
  have n: "normalize_v (vec (Num huge) (Num 0) (Num 0)) = vec (Num 0) (Num 0) (Num 0)"
    unfolding normalize_v_def l
    by (simp add: or_default_def truthy_def divideScalar_def multiplyScalar_def vec_sel)
  have z: "length_v (vec (Num 0) (Num 0) (Num 0)) = Num 0" by (simp add: length_v_def vec_sel)
  have a: "axis (deref (snd (constructor None (Some 0) None None None huge_axis_heap))
               (fst (constructor None (Some 0) None None None huge_axis_heap)))
             = normalize_v (vec (Num huge) (Num 0) (Num 0))"
    using constructor_axis_Some[of 0 huge_axis_heap] by (simp add: huge_axis_heap_def)
  show ?thesis unfolding a n z by (simp add: near_unit_def)
qed

lemma constructor_tiny_axis:
  "axis (deref (snd (constructor None (Some 0) None None None tiny_axis_heap))
               (fst (constructor None (Some 0) None None None tiny_axis_heap)))
     = vec (Num tiny) (Num 0) (Num 0) \<and>
   \<not> near_unit (length_v (axis (deref (snd (constructor None (Some 0) None None None tiny_axis_heap))
               (fst (constructor None (Some 0) None None None tiny_axis_heap))))) \<and>
   \<not> near_unit (Num (sqrt (tiny * tiny + 0 * 0 + 0 * 0)))"
proof -
  have l: "length_v (vec (Num tiny) (Num 0) (Num 0)) = Num 0"
    by (simp add: length_v_def vec_sel tiny_square)
  have n: "normalize_v (vec (Num tiny) (Num 0) (Num 0)) = vec (Num tiny) (Num 0) (Num 0)"
    unfolding normalize_v_def l
    by (simp add: or_default_def truthy_def divideScalar_def multiplyScalar_def vec_sel tiny_double)
  have a: "axis (deref (snd (constructor None (Some 0) None None None tiny_axis_heap))
               (fst (constructor None (Some 0) None None None tiny_axis_heap)))
             = normalize_v (vec (Num tiny) (Num 0) (Num 0))"
    using constructor_axis_Some[of 0 tiny_axis_heap] by (simp add: tiny_axis_heap_def)
  have "tiny \<le> 1 / 2" unfolding tiny_def by (simp add: field_simps)
  moreover have "0 \<le> tiny" unfolding tiny_def by simp
  ultimately have "\<not> near_unit (Num (sqrt (tiny * tiny + 0 * 0 + 0 * 0)))"
    by (simp add: near_unit_def)
  then show ?thesis unfolding a n l by (simp add: near_unit_def)
qed

text \<open>
  C5, amended. For every frustum the constructor produces from a supplied axis whose
  components are finite, the largest of them between \<open>2^-500\<close> and \<open>2^500\<close> in absolute
  value (whether or not the vector is normalized): the stored axis has finite components,
  its length is within 1e-6 of 1, and so is its length as \<open>length()\<close> computes it in
  doubles. When the axis argument is omitted the stored axis is \<open>(0, 1, 0)\<close>, of length
  exactly 1.
\<close>

theorem constructor_axis_unit:
  fixes a b c :: real
  assumes "p < length h" "h ! p = vec (Num a) (Num b) (Num c)"
    and "2 powi (- 500) \<le> max \<bar>a\<bar> (max \<bar>b\<bar> \<bar>c\<bar>)" "max \<bar>a\<bar> (max \<bar>b\<bar> \<bar>c\<bar>) \<le> 2 powi 500"
  shows "(\<exists>a' b' c'.
            axis (deref (snd (constructor bs (Some p) hg r0 r1 h))
                        (fst (constructor bs (Some p) hg r0 r1 h))) = vec (Num a') (Num b') (Num c') \<and>
            \<bar>sqrt (a' * a' + b' * b' + c' * c') - 1\<bar> \<le> 1 / 1000000) \<and>
         near_unit (length_v (axis (deref (snd (constructor bs (Some p) hg r0 r1 h))
                                          (fst (constructor bs (Some p) hg r0 r1 h))))) \<and>
         axis (deref (snd (constructor bs None hg r0 r1 h)) (fst (constructor bs None hg r0 r1 h)))
           = vec (Num 0) (Num 1) (Num 0) \<and>
         length_v (axis (deref (snd (constructor bs None hg r0 r1 h))
                               (fst (constructor bs None hg r0 r1 h)))) = Num 1"
proof -
  note m = max_bounds[OF assms(3,4)]
  from near_unit_normalize[OF m] obtain a' b' c' where n:
    "normalize_v (vec (Num a) (Num b) (Num c)) = vec (Num a') (Num b') (Num c')"
    "near_unit (length_v (vec (Num a') (Num b') (Num c')))"
    "\<bar>sqrt (a' * a' + b' * b' + c' * c') - 1\<bar> \<le> 1 / 1000000" by blast
  have s: "axis (deref (snd (constructor bs (Some p) hg r0 r1 h))
                       (fst (constructor bs (Some p) hg r0 r1 h))) = vec (Num a') (Num b') (Num c')"
    unfolding constructor_axis_Some[OF assms(1)] assms(2) n(1) ..
  have y: "length_v (vec (Num 0) (Num 1) (Num 0)) = Num 1" by (simp add: length_v_def vec_sel)
  show ?thesis unfolding constructor_axis_None normalize_y y unfolding s using n(2,3) by blast
qed

text \<open>
  The axis \<open>(3, 1, 2)\<close>, whose length \<open>sqrt 14\<close> is not a double, and the axis
  \<open>(0, 2, 0)\<close>, which is stored as \<open>(0, 1, 0)\<close>.
\<close>

theorem constructor_axis_unit_witness:
  "0 < length skew_axis_heap \<and> skew_axis_heap ! 0 = vec (Num 3) (Num 1) (Num 2) \<and>
   2 powi (- 500) \<le> max \<bar>3::real\<bar> (max \<bar>1\<bar> \<bar>2\<bar>) \<and> max \<bar>3::real\<bar> (max \<bar>1\<bar> \<bar>2\<bar>) \<le> 2 powi 500 \<and>
   near_unit (length_v (axis (deref (snd (constructor None (Some 0) None None None skew_axis_heap))
                                    (fst (constructor None (Some 0) None None None skew_axis_heap))))) \<and>
   length_v (long_axis_heap ! 0) = Num 2 \<and>
   axis (deref (snd (constructor None (Some 0) None None None long_axis_heap))
               (fst (constructor None (Some 0) None None None long_axis_heap)))
     = vec (Num 0) (Num 1) (Num 0)"
proof -
  have a: "0 < length skew_axis_heap" "skew_axis_heap ! 0 = vec (Num 3) (Num 1) (Num 2)"
    by (simp_all add: skew_axis_heap_def)
  have "(2::real) powi (- 500) \<le> 2 powi 0" by (intro power_int_increasing) simp_all
  then have b: "2 powi (- 500) \<le> max \<bar>3::real\<bar> (max \<bar>1\<bar> \<bar>2\<bar>)" by simp
  have "(2::real) powi 2 \<le> 2 powi 500" by (intro power_int_increasing) simp_all
  then have c: "max \<bar>3::real\<bar> (max \<bar>1\<bar> \<bar>2\<bar>) \<le> 2 powi 500" by simp
  have s: "sqrt 4 = 2" using real_sqrt_abs2[of 2] by simp
  have d: "length_v (long_axis_heap ! 0) = Num 2"
    by (simp add: long_axis_heap_def length_v_def vec_sel s)
  have e: "axis (deref (snd (constructor None (Some 0) None None None long_axis_heap))
               (fst (constructor None (Some 0) None None None long_axis_heap)))
     = vec (Num 0) (Num 1) (Num 0)"
    using constructor_axis_Some[of 0 long_axis_heap]
    by (simp add: long_axis_heap_def normalize_v_def length_v_def vec_sel s or_default_def truthy_def
          divideScalar_def multiplyScalar_def)
  from constructor_axis_unit[OF a b c, of None None None None] a b c d e show ?thesis by blast
qed

section \<open>Construction from a capsule\<close>

lemma fromCapsule_store:
  assumes "c0 < length h" "c1 < length h"
  shows "fromCapsule c0 q0 c1 q1 h =
     (\<lparr>base = c0, axis = Suc (length h),
       height = or_default (Some (length_v (subVectors (h ! c1) (h ! c0)))) (Num 1),
       radius0 = or_default (Some q0) (Num 0), radius1 = or_default (Some q1) (Num 0)\<rparr>,
      h @ [subVectors (h ! c1) (h ! c0),
           normalize_v (normalize_v (subVectors (h ! c1) (h ! c0)))])"
  using assms
  by (simp add: fromCapsule_def constructor_def new_Vector3_def nth_append list_update_append)

lemma or_default_truthy: "truthy v \<Longrightarrow> or_default (Some v) d = v"
  by (simp add: or_default_def)

lemma or_default_zero: "q \<noteq> NaN \<Longrightarrow> or_default (Some q) (Num 0) = q"
  by (simp add: or_default_def truthy_def)

text \<open>
  C6 says that the height is the distance between the centres, for all centres. When
  the two centres are the same point the distance is 0, the constructor takes the 0 for
  an omitted height, and the frustum has height 1.
\<close>

theorem fromCapsule_same_center_counterexample:
  "height (fst (fromCapsule 0 (Num 1) 0 (Num 2) same_point_heap)) = Num 1 \<and>
   length_v (subVectors (same_point_heap ! 0) (same_point_heap ! 0)) = Num 0"
  by (simp add: fromCapsule_store same_point_heap_def)
     (simp add: length_v_def subVectors_def minus_number_def vec_def or_default_def truthy_def)

text \<open>
  Two different centres are not enough for the height to be their distance: with the
  centres \<open>2^-600\<close> apart the square of the difference underflows, \<open>length()\<close> is 0,
  and the height is 1 again.
\<close>

lemma fromCapsule_close_centers:
  "close_capsule_heap ! 0 \<noteq> close_capsule_heap ! 1 \<and>
   length_v (subVectors (close_capsule_heap ! 1) (close_capsule_heap ! 0)) = Num 0 \<and>
   height (fst (fromCapsule 0 (Num 1) 1 (Num 2) close_capsule_heap)) = Num 1"
proof -
  have d: "subVectors (close_capsule_heap ! 1) (close_capsule_heap ! 0) = vec (Num tiny) (Num 0) (Num 0)"
    by (simp add: close_capsule_heap_def subVectors_def minus_number_def vec_sel tiny_double)
  have l: "length_v (vec (Num tiny) (Num 0) (Num 0)) = Num 0"
    by (simp add: length_v_def vec_sel tiny_square)
  have n: "close_capsule_heap ! 0 \<noteq> close_capsule_heap ! 1"
    by (simp add: close_capsule_heap_def vec_inject tiny_double)
  have "height (fst (fromCapsule 0 (Num 1) 1 (Num 2) close_capsule_heap)) = Num 1"
    using fromCapsule_store[of 0 close_capsule_heap 1 "Num 1" "Num 2"]
    unfolding d l by (simp add: close_capsule_heap_def or_default_def truthy_def)
  with d l n show ?thesis by simp
qed

text \<open>
  C6, amended. For all centres \<open>c0\<close> and \<open>c1\<close> whose distance, as \<open>length()\<close>
  computes it from the difference \<open>c1 - c0\<close>, is neither 0 nor \<open>NaN\<close>, and all radii
  \<open>r0\<close>, \<open>r1\<close> other than \<open>NaN\<close>, \<open>fromCapsule(c0, r0, c1, r1)\<close> is a frustum
  with base \<open>c0\<close>, height that computed distance, radius0 \<open>r0\<close>, radius1 \<open>r1\<close>, and
  axis \<open>normalize(normalize(c1 - c0))\<close>: the difference is normalized by \<open>fromCapsule\<close>
  and again by the constructor. When the components of the difference are finite, the
  largest of them between \<open>2^-500\<close> and \<open>2^500\<close> in absolute value, each component of
  that axis is within 1e-12 of the same component of \<open>normalize(c1 - c0)\<close>.
\<close>

theorem fromCapsule_fields:
  fixes a b c :: real
  defines "d \<equiv> \<lambda>h c0 c1. subVectors (h ! c1) (h ! c0)"
  assumes "c0 < length h" "c1 < length h" "truthy (length_v (d h c0 c1))"
    and "q0 \<noteq> NaN" "q1 \<noteq> NaN"
  shows "deref (snd (fromCapsule c0 q0 c1 q1 h)) (fst (fromCapsule c0 q0 c1 q1 h)) =
           \<lparr>base = h ! c0,
            axis = normalize_v (normalize_v (d h c0 c1)),
            height = length_v (d h c0 c1),
            radius0 = q0, radius1 = q1\<rparr> \<and>
         (d h c0 c1 = vec (Num a) (Num b) (Num c) \<and>
          2 powi (- 500) \<le> max \<bar>a\<bar> (max \<bar>b\<bar> \<bar>c\<bar>) \<and> max \<bar>a\<bar> (max \<bar>b\<bar> \<bar>c\<bar>) \<le> 2 powi 500 \<longrightarrow>
          (\<exists>x1 y1 z1 x2 y2 z2.
             normalize_v (d h c0 c1) = vec (Num x1) (Num y1) (Num z1) \<and>
             normalize_v (normalize_v (d h c0 c1)) = vec (Num x2) (Num y2) (Num z2) \<and>
             \<bar>x2 - x1\<bar> \<le> 1 / 1000000000000 \<and> \<bar>y2 - y1\<bar> \<le> 1 / 1000000000000 \<and>
             \<bar>z2 - z1\<bar> \<le> 1 / 1000000000000))"
proof -
  have fields: "deref (snd (fromCapsule c0 q0 c1 q1 h)) (fst (fromCapsule c0 q0 c1 q1 h)) =
           \<lparr>base = h ! c0,
            axis = normalize_v (normalize_v (d h c0 c1)),
            height = length_v (d h c0 c1),
            radius0 = q0, radius1 = q1\<rparr>"
    unfolding fromCapsule_store[OF assms(2,3)] or_default_truthy[OF assms(4)[unfolded d_def]]
      or_default_zero[OF assms(5)] or_default_zero[OF assms(6)] d_def
    using assms(2) by (simp add: deref_def nth_append)
  have close: "\<exists>x1 y1 z1 x2 y2 z2.
             normalize_v (d h c0 c1) = vec (Num x1) (Num y1) (Num z1) \<and>
             normalize_v (normalize_v (d h c0 c1)) = vec (Num x2) (Num y2) (Num z2) \<and>
             \<bar>x2 - x1\<bar> \<le> 1 / 1000000000000 \<and> \<bar>y2 - y1\<bar> \<le> 1 / 1000000000000 \<and>
             \<bar>z2 - z1\<bar> \<le> 1 / 1000000000000"
    if v: "d h c0 c1 = vec (Num a) (Num b) (Num c)"
      and m: "2 powi (- 500) \<le> max \<bar>a\<bar> (max \<bar>b\<bar> \<bar>c\<bar>)" "max \<bar>a\<bar> (max \<bar>b\<bar> \<bar>c\<bar>) \<le> 2 powi 500"
    unfolding v by (rule normalize_twice_close[OF max_bounds[OF m]])
  from fields close show ?thesis by blast
qed

text \<open>
  The centres \<open>(0, 0, 0)\<close> and \<open>(0, 4, 0)\<close>: the frustum has height 4 and axis
  \<open>(0, 1, 0)\<close>.
\<close>

theorem fromCapsule_fields_witness:
  "0 < length capsule_heap \<and> 1 < length capsule_heap \<and>
   subVectors (capsule_heap ! 1) (capsule_heap ! 0) = vec (Num 0) (Num 4) (Num 0) \<and>
   truthy (length_v (subVectors (capsule_heap ! 1) (capsule_heap ! 0))) \<and>
   Num 1 \<noteq> NaN \<and> Num 2 \<noteq> NaN \<and>
   2 powi (- 500) \<le> max \<bar>0::real\<bar> (max \<bar>4\<bar> \<bar>0\<bar>) \<and> max \<bar>0::real\<bar> (max \<bar>4\<bar> \<bar>0\<bar>) \<le> 2 powi 500 \<and>
   deref (snd (fromCapsule 0 (Num 1) 1 (Num 2) capsule_heap))
         (fst (fromCapsule 0 (Num 1) 1 (Num 2) capsule_heap)) =
     \<lparr>base = vec (Num 0) (Num 0) (Num 0), axis = vec (Num 0) (Num 1) (Num 0),
      height = Num 4, radius0 = Num 1, radius1 = Num 2\<rparr> \<and>
   (\<exists>x1 y1 z1 x2 y2 z2.
      normalize_v (vec (Num 0) (Num 4) (Num 0)) = vec (Num x1) (Num y1) (Num z1) \<and>
      normalize_v (normalize_v (vec (Num 0) (Num 4) (Num 0))) = vec (Num x2) (Num y2) (Num z2) \<and>
      \<bar>x2 - x1\<bar> \<le> 1 / 1000000000000 \<and> \<bar>y2 - y1\<bar> \<le> 1 / 1000000000000 \<and>
      \<bar>z2 - z1\<bar> \<le> 1 / 1000000000000)"
proof -
  have a: "0 < length capsule_heap" "1 < length capsule_heap"
    by (simp_all add: capsule_heap_def)
  have s: "sqrt 16 = 4" using real_sqrt_abs2[of 4] by simp
  have e: "subVectors (capsule_heap ! 1) (capsule_heap ! 0) = vec (Num 0) (Num 4) (Num 0)"
    by (simp add: capsule_heap_def subVectors_def minus_number_def vec_sel)
  have f: "length_v (vec (Num 0) (Num 4) (Num 0)) = Num 4" by (simp add: length_v_def vec_sel s)
  have t: "truthy (length_v (subVectors (capsule_heap ! 1) (capsule_heap ! 0)))"
    unfolding e f by (simp add: truthy_def)
  have q: "Num 1 \<noteq> NaN" "Num 2 \<noteq> NaN" by simp_all
  have g: "normalize_v (vec (Num 0) (Num 4) (Num 0)) = vec (Num 0) (Num 1) (Num 0)"
    unfolding normalize_v_def f
    by (simp add: or_default_def truthy_def divideScalar_def multiplyScalar_def vec_sel)
  have h0: "capsule_heap ! 0 = vec (Num 0) (Num 0) (Num 0)" by (simp add: capsule_heap_def)
  have "(2::real) powi (- 500) \<le> 2 powi 0" by (intro power_int_increasing) simp_all
  then have m1: "2 powi (- 500) \<le> max \<bar>0::real\<bar> (max \<bar>4\<bar> \<bar>0\<bar>)" by simp
  have "(2::real) powi 2 \<le> 2 powi 500" by (intro power_int_increasing) simp_all
  then have m2: "max \<bar>0::real\<bar> (max \<bar>4\<bar> \<bar>0\<bar>) \<le> 2 powi 500" by simp
  from fromCapsule_fields[OF a t q, of 0 4 0] a t q e m1 m2 show ?thesis
    unfolding e f g normalize_y unfolding h0 by blast
qed

section \<open>The bounding box\<close>

text \<open>
  A target that is supplied holds the returned box after the call, and does not change
  the result.
\<close>

lemma getBoundingBox_target:
  "snd (getBoundingBox F None) = None \<and>
   snd (getBoundingBox F (Some t)) = Some (fst (getBoundingBox F (Some t))) \<and>
   fst (getBoundingBox F (Some t)) = fst (getBoundingBox F None)"
  by (simp add: getBoundingBox_def Let_def)

text \<open>
  With radii 2 and 1 on the y axis the code computes the box of the specification: the
  half-extents \<open>(0, 2, 0)\<close>, divided by 2 and multiplied by 1, are \<open>(0, 1, 0)\<close>.
\<close>

lemma getBoundingBox_example:
  "fst (getBoundingBox (apex_frustum\<lparr>radius0 := Num 2\<rparr>) None) =
     \<lparr>min_b = vec (Num 0) (Num (- 2)) (Num 0), max_b = vec (Num 0) (Num 3) (Num 0)\<rparr> \<and>
   spec_BoundingBox (apex_frustum\<lparr>radius0 := Num 2\<rparr>) =
     \<lparr>min_b = vec (Num 0) (Num (- 2)) (Num 0), max_b = vec (Num 0) (Num 3) (Num 0)\<rparr>"
  by (simp add: getBoundingBox_def apex_frustum_def spec_BoundingBox_def spec_cap_box_def
        multiplyScalar_def divideScalar_def subVectors_def addVectors_def addScaledVector_def
        union_b_def min_v_def max_v_def vec_def minus_number_def Let_def)

text \<open>
  C7 says that for every frustum the result is the union of the two end-cap boxes. The
  code scales the half-extents by \<open>radius0\<close>, then divides them by \<open>radius0\<close>
  before scaling them by \<open>radius1\<close>. With \<open>radius0 = 0\<close> that is \<open>0 * (1 / 0)\<close>,
  which is \<open>NaN\<close>: for the cone with base \<open>(0, 0, 0)\<close>, axis \<open>(0, 1, 0)\<close>, height 2
  and radii 0 and 1, every component of the returned box is \<open>NaN\<close>, where the
  specification's box runs from \<open>(0, 0, 0)\<close> to \<open>(0, 3, 0)\<close>.
\<close>

theorem getBoundingBox_zero_radius0:
  "getBoundingBox apex_frustum None =
     (\<lparr>min_b = vec NaN NaN NaN, max_b = vec NaN NaN NaN\<rparr>, None) \<and>
   spec_BoundingBox apex_frustum =
     \<lparr>min_b = vec (Num 0) (Num 0) (Num 0), max_b = vec (Num 0) (Num 3) (Num 0)\<rparr>"
  by (simp add: getBoundingBox_def apex_frustum_def spec_BoundingBox_def spec_cap_box_def
        multiplyScalar_def divideScalar_def subVectors_def addVectors_def addScaledVector_def
        union_b_def min_v_def max_v_def vec_def minus_number_def Let_def)

section \<open>The state of the store during a call\<close>

lemmas coef_defs = coef_c0_def coef_c1_def coef_c2_def coef_r_def coef_R_def coef_deltaR_def
  vec_D_def quad_discr_def quad_t0_def quad_t1_def

lemmas step_defs = candidate_u_def axial_of_u_def store_hit_def copy_to_target_def
  coefficients_def

lemmas vec_defs = dot_def subVectors_def addVectors_def addScaledVector_def vec_def
  Math_pow2_def minus_number_def strict_eq_def

lemma kept_first:
  assumes "closure_private cl this frustum target_arg h"
  shows "kept cl this frustum h (h[cl_D cl := subVectors (h ! origin this) (h ! base frustum)])"
  using assms unfolding closure_private_def kept_def by (auto simp add: nth_list_update)

lemma kept_coefficients:
  assumes "kept cl this frustum h hh"
  shows "coefficients cl this frustum hh =
           (coef_c0 (deref_ray h this) (deref h frustum),
            coef_c1 (deref_ray h this) (deref h frustum),
            coef_c2 (deref_ray h this) (deref h frustum))"
  using assms unfolding kept_def coefficients_def coef_defs deref_def deref_ray_def Let_def
  by simp

lemma kept_candidate:
  assumes "closure_private cl this frustum target_arg h" "kept cl this frustum h hh"
  shows "kept cl this frustum h (candidate_u cl this t hh)"
    and "candidate_u cl this t hh ! cl_u cl =
           addScaledVector (subVectors (h ! origin this) (h ! base frustum)) (h ! direction this) t"
    and "candidate_u cl this t hh ! cl_target2 cl = hh ! cl_target2 cl"
  using assms unfolding closure_private_def kept_def candidate_u_def Let_def
  by (auto simp add: nth_list_update)

lemma kept_axial:
  assumes "kept cl this frustum h hh"
  shows "axial_of_u cl frustum hh = dot (h ! axis frustum) (hh ! cl_u cl)"
  using assms unfolding kept_def axial_of_u_def by simp

lemma store_hit_value:
  assumes "closure_private cl this frustum target_arg h" "kept cl this frustum h hh"
  shows "store_hit cl frustum hh ! cl_target2 cl = addVectors (h ! base frustum) (hh ! cl_u cl)"
    and "length (store_hit cl frustum hh) = length h"
  using assms unfolding closure_private_def kept_def store_hit_def
  by (auto simp add: nth_list_update)

lemma kept_store_hit:
  assumes "closure_private cl this frustum target_arg h" "result_unshared cl this frustum"
    and "kept cl this frustum h hh"
  shows "kept cl this frustum h (store_hit cl frustum hh)"
  using assms unfolding closure_private_def result_unshared_def kept_def store_hit_def
  by (auto simp add: nth_list_update)

lemma copy_to_target_value:
  assumes "closure_private cl this frustum target_arg h" "length hh = length h"
  shows "copy_to_target cl (case target_arg of None \<Rightarrow> cl_target2 cl | Some r \<Rightarrow> r) hh
           ! (case target_arg of None \<Rightarrow> cl_target2 cl | Some r \<Rightarrow> r) = hh ! cl_target2 cl"
    and "copy_to_target cl (case target_arg of None \<Rightarrow> cl_target2 cl | Some r \<Rightarrow> r) hh
           ! cl_target2 cl = hh ! cl_target2 cl"
  using assms unfolding closure_private_def copy_to_target_def
  by (auto split: option.splits simp add: nth_list_update)

section \<open>The linear case\<close>

text \<open>
  The whole of the linear branch (lines 195 to 208), and the case in which neither branch
  is taken:
\<close>

lemma linear_branch:
  fixes cl this frustum target_arg h
  defines "R \<equiv> deref_ray h this" and "F \<equiv> deref h frustum"
    and "target \<equiv> (case target_arg of None \<Rightarrow> cl_target2 cl | Some r \<Rightarrow> r)"
    and "res \<equiv> intersectsConeFrustum cl this frustum target_arg h"
  defines "D \<equiv> subVectors (origin R) (base F)"
    and "t \<equiv> Num (- 2) * coef_c0 R F / coef_c1 R F"
  defines "d \<equiv> dot (axis F) (addScaledVector D (direction R) t)"
  assumes priv: "closure_private cl this frustum target_arg h"
  shows "(strict_eq (coef_c2 R F) (Num 0) \<and> \<not> strict_eq (coef_c1 R F) (Num 0) \<longrightarrow>
            (if t \<ge> Num 0 \<and> d \<ge> Num 0 \<and> d \<le> height frustum
             then fst res = Some target \<and>
                  snd res ! target = addVectors (base F) (addScaledVector D (direction R) t)
             else fst res = None)) \<and>
         (strict_eq (coef_c2 R F) (Num 0) \<and> strict_eq (coef_c1 R F) (Num 0) \<longrightarrow>
            fst res = None)"
proof -
  let ?h1 = "h[cl_D cl := subVectors (h ! origin this) (h ! base frustum)]"
  let ?h2 = "candidate_u cl this t ?h1"
  note k1 = kept_first[OF priv]
  note k2 = kept_candidate[OF priv k1, of t]
  have dd: "axial_of_u cl frustum ?h2 = d"
    unfolding kept_axial[OF k2(1)] k2(2) d_def D_def R_def F_def deref_def deref_ray_def by simp
  have val: "copy_to_target cl target (store_hit cl frustum ?h2) ! target =
             addVectors (base F) (addScaledVector D (direction R) t)"
    unfolding target_def copy_to_target_value(1)[OF priv store_hit_value(2)[OF priv k2(1)]]
      store_hit_value(1)[OF priv k2(1)] k2(2)
    by (simp add: D_def R_def F_def deref_def deref_ray_def)
  show ?thesis
    unfolding res_def intersectsConeFrustum_def Let_def kept_coefficients[OF k1]
    using dd val
    by (simp add: R_def F_def t_def target_def)
qed


text \<open>
  C8. In the intersector (lines 195 to 208), with \<open>D = origin - base\<close>: when
  \<open>c2 === 0\<close> and \<open>c1 !== 0\<close> the one candidate is \<open>t = -2 * c0 / c1\<close>, and with
  \<open>d = axis . (D + t * direction)\<close> a point is returned if and only if \<open>t >= 0\<close>,
  \<open>d >= 0\<close> and \<open>d <= height\<close>; the point returned is \<open>base + (D + t * direction)\<close>,
  in the vector \<open>target\<close> (the closure's \<open>target2\<close> when no target is passed). When
  \<open>c2 === 0\<close> and \<open>c1 === 0\<close> the call returns \<open>null\<close>. The candidate, the axial
  coordinate and the point are written with the vector operations themselves, on the values
  the ray and the frustum hold when the call starts; the only assumption is that \<open>D\<close> and
  \<open>u\<close> are the closure's own.
\<close>

theorem linear_case:
  fixes cl this frustum target_arg h
  defines "R \<equiv> deref_ray h this" and "F \<equiv> deref h frustum"
    and "target \<equiv> (case target_arg of None \<Rightarrow> cl_target2 cl | Some r \<Rightarrow> r)"
    and "res \<equiv> intersectsConeFrustum cl this frustum target_arg h"
  defines "D \<equiv> subVectors (origin R) (base F)"
    and "t \<equiv> Num (- 2) * coef_c0 R F / coef_c1 R F"
  defines "d \<equiv> dot (axis F) (addScaledVector D (direction R) t)"
  assumes priv: "closure_private cl this frustum target_arg h"
  shows "(strict_eq (coef_c2 R F) (Num 0) \<and> \<not> strict_eq (coef_c1 R F) (Num 0) \<longrightarrow>
            (if t \<ge> Num 0 \<and> d \<ge> Num 0 \<and> d \<le> height frustum
             then fst res = Some target \<and>
                  snd res ! target = addVectors (base F) (addScaledVector D (direction R) t)
             else fst res = None)) \<and>
         (strict_eq (coef_c2 R F) (Num 0) \<and> strict_eq (coef_c1 R F) (Num 0) \<longrightarrow>
            fst res = None)"
  unfolding R_def F_def target_def res_def D_def t_def d_def
  by (rule linear_branch[OF priv])

lemma linear_private:
  "closure_private the_closure slant_ray cone_frustum None ray_heap"
  "closure_private the_closure slant_ray short_cone None ray_heap"
  "closure_private the_closure behind_ray cone_frustum (Some 10) ray_heap"
  "closure_private the_closure axis_ray cyl_frustum None ray_heap"
  by (simp_all add: closure_private_def the_closure_def slant_ray_def behind_ray_def axis_ray_def
        cone_frustum_def short_cone_def cyl_frustum_def ray_heap_def)

lemmas input_defs = the_closure_def slant_ray_def behind_ray_def axis_ray_def cone_frustum_def
  short_cone_def cyl_frustum_def ray_heap_def deref_def deref_ray_def

text \<open>
  Four calls on the cone of slope 1 around the \<open>y\<close> axis (radius 1 at the base), and on the
  cylinder. The ray from \<open>(-3, 0, 0)\<close> in direction \<open>(1, 1, 0)\<close> runs parallel to the
  side of the cone: \<open>c2 = 0\<close>, \<open>c1 = 4\<close>, \<open>c0 = -8\<close>, so \<open>t = 4\<close> and \<open>d = 4\<close>.
  With height 10 the point \<open>(1, 4, 0)\<close> is returned; with height 3 the candidate is
  rejected by \<open>d <= height\<close> alone. The same direction from \<open>(0, 0, 0)\<close> gives a
  negative \<open>t\<close>, and along the axis of the cylinder \<open>c1 = 0\<close>.
\<close>

theorem linear_case_witness:
  "closure_private the_closure slant_ray cone_frustum None ray_heap \<and>
   coef_c2 (deref_ray ray_heap slant_ray) (deref ray_heap cone_frustum) = Num 0 \<and>
   coef_c1 (deref_ray ray_heap slant_ray) (deref ray_heap cone_frustum) = Num 4 \<and>
   Num (- 2) * coef_c0 (deref_ray ray_heap slant_ray) (deref ray_heap cone_frustum)
      / coef_c1 (deref_ray ray_heap slant_ray) (deref ray_heap cone_frustum) = Num 4 \<and>
   fst (intersectsConeFrustum the_closure slant_ray cone_frustum None ray_heap) = Some 1 \<and>
   snd (intersectsConeFrustum the_closure slant_ray cone_frustum None ray_heap) ! 1
     = vec (Num 1) (Num 4) (Num 0) \<and>
   closure_private the_closure slant_ray short_cone None ray_heap \<and>
   coef_c2 (deref_ray ray_heap slant_ray) (deref ray_heap short_cone) = Num 0 \<and>
   coef_c1 (deref_ray ray_heap slant_ray) (deref ray_heap short_cone) = Num 4 \<and>
   Num (- 2) * coef_c0 (deref_ray ray_heap slant_ray) (deref ray_heap short_cone)
      / coef_c1 (deref_ray ray_heap slant_ray) (deref ray_heap short_cone) = Num 4 \<and>
   dot (ray_heap ! 6)
     (addScaledVector (subVectors (ray_heap ! 7) (ray_heap ! 5)) (ray_heap ! 8) (Num 4)) = Num 4 \<and>
   height short_cone = Num 3 \<and>
   fst (intersectsConeFrustum the_closure slant_ray short_cone None ray_heap) = None \<and>
   closure_private the_closure behind_ray cone_frustum (Some 10) ray_heap \<and>
   coef_c2 (deref_ray ray_heap behind_ray) (deref ray_heap cone_frustum) = Num 0 \<and>
   coef_c1 (deref_ray ray_heap behind_ray) (deref ray_heap cone_frustum) = Num 1 \<and>
   Num (- 2) * coef_c0 (deref_ray ray_heap behind_ray) (deref ray_heap cone_frustum)
      / coef_c1 (deref_ray ray_heap behind_ray) (deref ray_heap cone_frustum) = Num (- 2) \<and>
   fst (intersectsConeFrustum the_closure behind_ray cone_frustum (Some 10) ray_heap) = None \<and>
   closure_private the_closure axis_ray cyl_frustum None ray_heap \<and>
   coef_c2 (deref_ray ray_heap axis_ray) (deref ray_heap cyl_frustum) = Num 0 \<and>
   coef_c1 (deref_ray ray_heap axis_ray) (deref ray_heap cyl_frustum) = Num 0 \<and>
   fst (intersectsConeFrustum the_closure axis_ray cyl_frustum None ray_heap) = None"
proof -
  note p = linear_private
  have v1:
    "coef_c2 (deref_ray ray_heap slant_ray) (deref ray_heap cone_frustum) = Num 0"
    "coef_c1 (deref_ray ray_heap slant_ray) (deref ray_heap cone_frustum) = Num 4"
    "coef_c0 (deref_ray ray_heap slant_ray) (deref ray_heap cone_frustum) = Num (- 8)"
    by (simp_all add: coef_defs input_defs vec_defs Let_def)
  have v2:
    "coef_c2 (deref_ray ray_heap slant_ray) (deref ray_heap short_cone) = Num 0"
    "coef_c1 (deref_ray ray_heap slant_ray) (deref ray_heap short_cone) = Num 4"
    "coef_c0 (deref_ray ray_heap slant_ray) (deref ray_heap short_cone) = Num (- 8)"
    by (simp_all add: coef_defs input_defs vec_defs Let_def)
  have v3:
    "coef_c2 (deref_ray ray_heap behind_ray) (deref ray_heap cone_frustum) = Num 0"
    "coef_c1 (deref_ray ray_heap behind_ray) (deref ray_heap cone_frustum) = Num 1"
    "coef_c0 (deref_ray ray_heap behind_ray) (deref ray_heap cone_frustum) = Num 1"
    by (simp_all add: coef_defs input_defs vec_defs Let_def)
  have v4:
    "coef_c2 (deref_ray ray_heap axis_ray) (deref ray_heap cyl_frustum) = Num 0"
    "coef_c1 (deref_ray ray_heap axis_ray) (deref ray_heap cyl_frustum) = Num 0"
    by (simp_all add: coef_defs input_defs vec_defs Let_def)
  have t: "Num (- 2) * Num (- 8) / Num 4 = Num 4" "Num (- 2) * Num 1 / Num 1 = Num (- 2)"
    by simp_all
  have d2: "dot (ray_heap ! 6)
     (addScaledVector (subVectors (ray_heap ! 7) (ray_heap ! 5)) (ray_heap ! 8) (Num 4)) = Num 4"
    "height short_cone = Num 3"
    by (simp_all add: ray_heap_def short_cone_def vec_defs)
  from linear_case[OF p(1)]
  have r1: "fst (intersectsConeFrustum the_closure slant_ray cone_frustum None ray_heap) = Some 1 \<and>
        snd (intersectsConeFrustum the_closure slant_ray cone_frustum None ray_heap) ! 1
          = vec (Num 1) (Num 4) (Num 0)"
    unfolding v1 t by (simp add: input_defs vec_defs strict_eq_def)
  from linear_case[OF p(2)]
  have r2: "fst (intersectsConeFrustum the_closure slant_ray short_cone None ray_heap) = None"
    unfolding v2 t by (simp add: input_defs vec_defs strict_eq_def)
  from linear_case[OF p(3)]
  have r3: "fst (intersectsConeFrustum the_closure behind_ray cone_frustum (Some 10) ray_heap) = None"
    unfolding v3 t by (simp add: input_defs vec_defs strict_eq_def)
  from linear_case[OF p(4)]
  have r4: "fst (intersectsConeFrustum the_closure axis_ray cyl_frustum None ray_heap) = None"
    unfolding v4 by (simp add: strict_eq_def)
  show ?thesis
    unfolding v1 v2 v3 v4 t using p r1 r2 r3 r4 d2 by simp
qed
section \<open>The nearer of two roots\<close>

lemma pos_not_neg_zero: "Num 0 < d \<Longrightarrow> \<not> d < Num 0 \<and> \<not> strict_eq d (Num 0)"
  by (cases d) (simp_all add: strict_eq_def)

lemma nonneg_total: "Num 0 \<le> a \<Longrightarrow> Num 0 \<le> b \<Longrightarrow> \<not> b < a \<Longrightarrow> a \<le> b"
  by (cases a; cases b) simp_all

lemma nonneg_less_le: "Num 0 \<le> a \<Longrightarrow> Num 0 \<le> b \<Longrightarrow> b < a \<Longrightarrow> b \<le> a"
  by (cases a; cases b) simp_all

lemma nonneg_refl: "Num 0 \<le> a \<Longrightarrow> a \<le> a"
  by (cases a) simp_all

lemma Math_min_nonneg:
  "Num 0 \<le> a \<Longrightarrow> Num 0 \<le> b \<Longrightarrow> Math_min a b = (if b < a then b else a)"
  by (cases a; cases b) simp_all

text \<open>
  The whole of the branch with two roots (lines 166 to 192, taken when the discriminant is
  neither negative nor zero), when the result vector is not part of the ray or the
  frustum: the point of \<open>t1\<close> is returned exactly when \<open>t1\<close> passes the test and
  either \<open>t0\<close> does not or \<open>t0 > t1\<close>; otherwise the point of \<open>t0\<close> if it passes;
  otherwise \<open>null\<close>.
\<close>

lemma two_root_branch:
  fixes cl this frustum target_arg h
  defines "R \<equiv> deref_ray h this" and "F \<equiv> deref h frustum"
    and "res \<equiv> intersectsConeFrustum cl this frustum target_arg h"
  defines "D \<equiv> subVectors (origin R) (base F)"
    and "t0 \<equiv> quad_t0 R F" and "t1 \<equiv> quad_t1 R F"
  defines "d0 \<equiv> dot (axis F) (addScaledVector D (direction R) t0)"
    and "d1 \<equiv> dot (axis F) (addScaledVector D (direction R) t1)"
  defines "ok0 \<equiv> t0 \<ge> Num 0 \<and> d0 \<ge> Num 0 \<and> d0 \<le> height frustum"
    and "ok1 \<equiv> t1 \<ge> Num 0 \<and> d1 \<ge> Num 0 \<and> d1 \<le> height frustum"
  assumes priv: "closure_private cl this frustum target_arg h"
    and unsh: "result_unshared cl this frustum"
    and c2: "\<not> strict_eq (coef_c2 R F) (Num 0)"
    and d: "\<not> quad_discr R F < Num 0" "\<not> strict_eq (quad_discr R F) (Num 0)"
  shows "if ok1 \<and> (\<not> ok0 \<or> t0 > t1)
         then fst res = Some (cl_target2 cl) \<and>
              snd res ! cl_target2 cl = addVectors (base F) (addScaledVector D (direction R) t1)
         else if ok0
         then fst res = Some (cl_target2 cl) \<and>
              snd res ! cl_target2 cl = addVectors (base F) (addScaledVector D (direction R) t0)
         else fst res = None"
proof -
  let ?target = "case target_arg of None \<Rightarrow> cl_target2 cl | Some r \<Rightarrow> r"
  let ?h1 = "h[cl_D cl := subVectors (h ! origin this) (h ! base frustum)]"
  let ?h2 = "candidate_u cl this t0 ?h1"
  let ?h3 = "if ok0 then store_hit cl frustum ?h2 else ?h2"
  let ?h4 = "candidate_u cl this t1 ?h3"
  note k1 = kept_first[OF priv]
  note k2 = kept_candidate[OF priv k1, of t0]
  have k3: "kept cl this frustum h ?h3"
    using k2(1) kept_store_hit[OF priv unsh k2(1)] by simp
  note k4 = kept_candidate[OF priv k3, of t1]
  have bF: "base F = h ! base frustum" "axis F = h ! axis frustum"
    "D = subVectors (h ! origin this) (h ! base frustum)" "direction R = h ! direction this"
    by (simp_all add: F_def R_def D_def deref_def deref_ray_def)
  have e0: "axial_of_u cl frustum ?h2 = d0"
    unfolding kept_axial[OF k2(1)] k2(2) d0_def bF ..
  have e1: "axial_of_u cl frustum ?h4 = d1"
    unfolding kept_axial[OF k4(1)] k4(2) d1_def bF ..
  have v0: "store_hit cl frustum ?h2 ! cl_target2 cl
              = addVectors (base F) (addScaledVector D (direction R) t0)"
    unfolding store_hit_value(1)[OF priv k2(1)] k2(2) bF ..
  have v1: "store_hit cl frustum ?h4 ! cl_target2 cl
              = addVectors (base F) (addScaledVector D (direction R) t1)"
    unfolding store_hit_value(1)[OF priv k4(1)] k4(2) bF ..
  have keep: "ok0 \<Longrightarrow> ?h4 ! cl_target2 cl = addVectors (base F) (addScaledVector D (direction R) t0)"
    unfolding k4(3) using v0 by simp
  have len4: "length ?h4 = length h" using k4(1) by (simp add: kept_def)
  note cp = copy_to_target_value(2)[OF priv]
  note raw = R_def F_def t0_def t1_def quad_discr_def quad_t0_def quad_t1_def
  note un = res_def intersectsConeFrustum_def Let_def kept_coefficients[OF k1] prod.case
  show ?thesis
  proof (cases ok0)
    case True
    then have T: "t0 \<ge> Num 0" "d0 \<ge> Num 0" "d0 \<le> height frustum" by (simp_all add: ok0_def)
    have e1': "axial_of_u cl frustum (candidate_u cl this t1 (store_hit cl frustum ?h2)) = d1"
      using e1 True by simp
    have keep': "candidate_u cl this t1 (store_hit cl frustum ?h2) ! cl_target2 cl
                   = addVectors (base F) (addScaledVector D (direction R) t0)"
      using keep True by simp
    have len4': "length (candidate_u cl this t1 (store_hit cl frustum ?h2)) = length h"
      using len4 True by simp
    have v1': "store_hit cl frustum (candidate_u cl this t1 (store_hit cl frustum ?h2)) ! cl_target2 cl
                 = addVectors (base F) (addScaledVector D (direction R) t1)"
      using v1 True by simp
    have len5': "length (store_hit cl frustum (candidate_u cl this t1 (store_hit cl frustum ?h2))) = length h"
      using store_hit_value(2)[OF priv k4(1)] True by simp
    show ?thesis
    proof (cases "ok1 \<and> t0 > t1")
      case True
      then have U: "t1 \<ge> Num 0" "d1 \<ge> Num 0" "d1 \<le> height frustum" "t0 > t1"
        by (simp_all add: ok1_def)
      have "res = (Some (cl_target2 cl),
                   copy_to_target cl ?target
                     (store_hit cl frustum (candidate_u cl this t1 (store_hit cl frustum ?h2))))"
        unfolding un using c2 d e0 e1' T U by (simp add: Let_def raw)
      then show ?thesis using True \<open>ok0\<close> v1' cp[OF len5'] by simp
    next
      case False
      then have "\<not> (t1 \<ge> Num 0 \<and> t0 > t1 \<and> d1 \<ge> Num 0 \<and> d1 \<le> height frustum)"
        by (auto simp add: ok1_def)
      then have "res = (Some (cl_target2 cl),
                   copy_to_target cl ?target (candidate_u cl this t1 (store_hit cl frustum ?h2)))"
        unfolding un using c2 d e0 e1' T by (auto simp add: Let_def raw)
      then show ?thesis using False \<open>ok0\<close> keep' cp[OF len4'] by auto
    qed
  next
    case False
    then have N: "\<not> (t0 \<ge> Num 0 \<and> d0 \<ge> Num 0 \<and> d0 \<le> height frustum)" by (simp add: ok0_def)
    have e1': "axial_of_u cl frustum (candidate_u cl this t1 ?h2) = d1"
      using e1 False by simp
    have v1': "store_hit cl frustum (candidate_u cl this t1 ?h2) ! cl_target2 cl
                 = addVectors (base F) (addScaledVector D (direction R) t1)"
      using v1 False by simp
    have len5': "length (store_hit cl frustum (candidate_u cl this t1 ?h2)) = length h"
      using store_hit_value(2)[OF priv k4(1)] False by simp
    show ?thesis
    proof (cases ok1)
      case True
      then have U: "t1 \<ge> Num 0" "d1 \<ge> Num 0" "d1 \<le> height frustum" by (simp_all add: ok1_def)
      have "res = (Some (cl_target2 cl),
                   copy_to_target cl ?target (store_hit cl frustum (candidate_u cl this t1 ?h2)))"
        unfolding un using c2 d e0 e1' N U by (auto simp add: Let_def raw)
      then show ?thesis using True \<open>\<not> ok0\<close> v1' cp[OF len5'] by simp
    next
      case False
      then have "\<not> (t1 \<ge> Num 0 \<and> d1 \<ge> Num 0 \<and> d1 \<le> height frustum)" by (simp add: ok1_def)
      then have "fst res = None"
        unfolding un using c2 d e0 e1' N by (auto simp add: Let_def raw)
      then show ?thesis using False \<open>\<not> ok0\<close> by simp
    qed
  qed
qed


text \<open>
  C1, as it fails. The claim is for every ray and frustum. With the cylinder built on the
  vector an earlier call returned (its base is \<open>target2\<close>), and the ray from
  \<open>(-3, 10, 0)\<close> in direction \<open>(1, 0, 0)\<close>, both roots \<open>t0 = 3\<close> and \<open>t1 = 1\<close>
  pass the test. The candidate of \<open>t0\<close> is written into \<open>target2\<close>, which moves the
  base of the frustum, and the candidate of \<open>t1\<close> is then added to the moved base: the call
  returns \<open>(-1, 15, 0)\<close>, where the point of the smaller root is \<open>(-2, 10, 0)\<close>.
\<close>

theorem aliased_base_counterexample:
  "cl_target2 the_closure = base alias_frustum \<and>
   \<not> strict_eq (coef_c2 (deref_ray alias_heap alias_ray) (deref alias_heap alias_frustum)) (Num 0) \<and>
   Num 0 < quad_discr (deref_ray alias_heap alias_ray) (deref alias_heap alias_frustum) \<and>
   quad_t0 (deref_ray alias_heap alias_ray) (deref alias_heap alias_frustum) = Num 3 \<and>
   quad_t1 (deref_ray alias_heap alias_ray) (deref alias_heap alias_frustum) = Num 1 \<and>
   dot (alias_heap ! 5)
     (addScaledVector (subVectors (alias_heap ! 3) (alias_heap ! 1)) (alias_heap ! 4) (Num 3)) = Num 5 \<and>
   dot (alias_heap ! 5)
     (addScaledVector (subVectors (alias_heap ! 3) (alias_heap ! 1)) (alias_heap ! 4) (Num 1)) = Num 5 \<and>
   height alias_frustum = Num 10 \<and>
   addVectors (alias_heap ! 1)
     (addScaledVector (subVectors (alias_heap ! 3) (alias_heap ! 1)) (alias_heap ! 4) (Num 1))
     = vec (Num (- 2)) (Num 10) (Num 0) \<and>
   fst (intersectsConeFrustum the_closure alias_ray alias_frustum None alias_heap) = Some 1 \<and>
   snd (intersectsConeFrustum the_closure alias_ray alias_frustum None alias_heap) ! 1
     = vec (Num (- 1)) (Num 15) (Num 0) \<and>
   snd (intersectsConeFrustum the_closure alias_ray alias_frustum None alias_heap) ! 1
     \<noteq> addVectors (alias_heap ! 1)
         (addScaledVector (subVectors (alias_heap ! 3) (alias_heap ! 1)) (alias_heap ! 4) (Num 1))"
  by (simp add: intersectsConeFrustum_def step_defs coef_defs the_closure_def alias_ray_def
        alias_frustum_def alias_heap_def deref_def deref_ray_def vec_defs Let_def)

text \<open>
  C1, amended. For every ray and frustum whose direction, base and axis are not the vector
  that holds the function's result (the closure's \<open>target2\<close>, which an earlier call may
  have returned): when \<open>c2 !== 0\<close>, the discriminant is positive and both roots \<open>t0\<close>
  and \<open>t1\<close> pass the test (\<open>t >= 0\<close> and the axial coordinate
  \<open>axis . (D + t * direction)\<close> in \<open>[0, height]\<close>), the returned vector \<open>target2\<close>
  holds the point of the smaller root: the point of \<open>t1\<close> when \<open>t0 > t1\<close>, since then
  it replaces the candidate of \<open>t0\<close>, and the point of \<open>t0\<close> otherwise.
\<close>

theorem nearer_root_selected:
  fixes cl this frustum target_arg h
  defines "R \<equiv> deref_ray h this" and "F \<equiv> deref h frustum"
    and "res \<equiv> intersectsConeFrustum cl this frustum target_arg h"
  defines "D \<equiv> subVectors (origin R) (base F)"
    and "t0 \<equiv> quad_t0 R F" and "t1 \<equiv> quad_t1 R F"
  defines "d0 \<equiv> dot (axis F) (addScaledVector D (direction R) t0)"
    and "d1 \<equiv> dot (axis F) (addScaledVector D (direction R) t1)"
  assumes priv: "closure_private cl this frustum target_arg h"
    and unsh: "result_unshared cl this frustum"
    and c2: "\<not> strict_eq (coef_c2 R F) (Num 0)" and discr: "Num 0 < quad_discr R F"
    and ok0: "t0 \<ge> Num 0" "d0 \<ge> Num 0" "d0 \<le> height frustum"
    and ok1: "t1 \<ge> Num 0" "d1 \<ge> Num 0" "d1 \<le> height frustum"
  shows "fst res = Some (cl_target2 cl) \<and>
         snd res ! cl_target2 cl =
           addVectors (base F) (addScaledVector D (direction R) (if t0 > t1 then t1 else t0)) \<and>
         snd res ! cl_target2 cl =
           addVectors (base F) (addScaledVector D (direction R) (Math_min t0 t1)) \<and>
         Math_min t0 t1 \<le> t0 \<and> Math_min t0 t1 \<le> t1"
proof -
  note d = pos_not_neg_zero[OF discr]
  have m: "Math_min t0 t1 = (if t1 < t0 then t1 else t0)"
    by (rule Math_min_nonneg[OF ok0(1) ok1(1)])
  from two_root_branch[OF priv unsh c2[unfolded R_def F_def] d[unfolded R_def F_def, THEN conjunct1]
      d[unfolded R_def F_def, THEN conjunct2]]
  have sel: "fst res = Some (cl_target2 cl) \<and>
             snd res ! cl_target2 cl =
               addVectors (base F) (addScaledVector D (direction R) (if t1 < t0 then t1 else t0))"
    using ok0 ok1
    unfolding res_def R_def F_def D_def t0_def t1_def d0_def d1_def
    by (simp split: if_splits)
  show ?thesis
    unfolding m
    using sel nonneg_total[OF ok0(1) ok1(1)] nonneg_less_le[OF ok0(1) ok1(1)]
      nonneg_refl[OF ok0(1)] nonneg_refl[OF ok1(1)]
    by simp
qed

lemma ray_heap_private:
  "closure_private the_closure cross_ray cyl_frustum None ray_heap"
  "result_unshared the_closure cross_ray cyl_frustum"
  by (simp_all add: closure_private_def result_unshared_def the_closure_def cross_ray_def
        cyl_frustum_def ray_heap_def)

lemma cross_values:
  "coef_c2 (deref_ray ray_heap cross_ray) (deref ray_heap cyl_frustum) = Num (- 1)"
  "quad_discr (deref_ray ray_heap cross_ray) (deref ray_heap cyl_frustum) = Num 1"
  "quad_t0 (deref_ray ray_heap cross_ray) (deref ray_heap cyl_frustum) = Num 3"
  "quad_t1 (deref_ray ray_heap cross_ray) (deref ray_heap cyl_frustum) = Num 1"
  "origin (deref_ray ray_heap cross_ray) = vec (Num (- 2)) (Num 5) (Num 0)"
  "direction (deref_ray ray_heap cross_ray) = vec (Num 1) (Num 0) (Num 0)"
  "base (deref ray_heap cyl_frustum) = vec (Num 0) (Num 0) (Num 0)"
  "axis (deref ray_heap cyl_frustum) = vec (Num 0) (Num 1) (Num 0)"
  "height cyl_frustum = Num 10"
  by (simp_all add: coef_defs cross_ray_def cyl_frustum_def ray_heap_def deref_def deref_ray_def
        vec_defs Let_def)

lemma steep_private:
  "closure_private the_closure steep_ray double_cone None ray_heap"
  "result_unshared the_closure steep_ray double_cone"
  by (simp_all add: closure_private_def result_unshared_def the_closure_def steep_ray_def
        double_cone_def ray_heap_def)

lemma sqrt_quarter: "sqrt (1 / 4) = 1 / 2"
  using real_sqrt_abs2[of "1 / 2"] by (simp add: power2_eq_square)

lemma steep_values:
  "coef_c2 (deref_ray ray_heap steep_ray) (deref ray_heap double_cone) = Num 1"
  "quad_discr (deref_ray ray_heap steep_ray) (deref ray_heap double_cone) = Num (1 / 4)"
  "quad_t0 (deref_ray ray_heap steep_ray) (deref ray_heap double_cone) = Num (1 / 2)"
  "quad_t1 (deref_ray ray_heap steep_ray) (deref ray_heap double_cone) = Num (3 / 2)"
  "origin (deref_ray ray_heap steep_ray) = vec (Num (1 / 2)) (Num 0) (Num 0)"
  "direction (deref_ray ray_heap steep_ray) = vec (Num 0) (Num 1) (Num 0)"
  "base (deref ray_heap double_cone) = vec (Num 0) (Num 0) (Num 0)"
  "axis (deref ray_heap double_cone) = vec (Num 0) (Num 1) (Num 0)"
  "height double_cone = Num 2"
  by (simp_all add: coef_defs steep_ray_def double_cone_def ray_heap_def deref_def deref_ray_def
        vec_defs Let_def sqrt_quarter)

text \<open>
  Two calls. On the cylinder the ray from \<open>(-2, 5, 0)\<close> in direction \<open>(1, 0, 0)\<close> has
  \<open>c2 = -1\<close> and the valid roots \<open>t0 = 3 > t1 = 1\<close>: the point of \<open>t1\<close>,
  \<open>(-1, 5, 0)\<close>, replaces the point of \<open>t0\<close>. On the double cone the ray from
  \<open>(0.5, 0, 0)\<close> in direction \<open>(0, 1, 0)\<close> has \<open>c2 = 1\<close> and the valid roots
  \<open>t0 = 0.5 < t1 = 1.5\<close>: the point of \<open>t0\<close>, \<open>(0.5, 0.5, 0)\<close>, stays.
\<close>

theorem nearer_root_selected_witness:
  "closure_private the_closure cross_ray cyl_frustum None ray_heap \<and>
   result_unshared the_closure cross_ray cyl_frustum \<and>
   \<not> strict_eq (coef_c2 (deref_ray ray_heap cross_ray) (deref ray_heap cyl_frustum)) (Num 0) \<and>
   Num 0 < quad_discr (deref_ray ray_heap cross_ray) (deref ray_heap cyl_frustum) \<and>
   quad_t0 (deref_ray ray_heap cross_ray) (deref ray_heap cyl_frustum) = Num 3 \<and>
   quad_t1 (deref_ray ray_heap cross_ray) (deref ray_heap cyl_frustum) = Num 1 \<and>
   fst (intersectsConeFrustum the_closure cross_ray cyl_frustum None ray_heap) = Some 1 \<and>
   snd (intersectsConeFrustum the_closure cross_ray cyl_frustum None ray_heap) ! 1
     = vec (Num (- 1)) (Num 5) (Num 0) \<and>
   closure_private the_closure steep_ray double_cone None ray_heap \<and>
   result_unshared the_closure steep_ray double_cone \<and>
   \<not> strict_eq (coef_c2 (deref_ray ray_heap steep_ray) (deref ray_heap double_cone)) (Num 0) \<and>
   Num 0 < quad_discr (deref_ray ray_heap steep_ray) (deref ray_heap double_cone) \<and>
   quad_t0 (deref_ray ray_heap steep_ray) (deref ray_heap double_cone) = Num (1 / 2) \<and>
   quad_t1 (deref_ray ray_heap steep_ray) (deref ray_heap double_cone) = Num (3 / 2) \<and>
   fst (intersectsConeFrustum the_closure steep_ray double_cone None ray_heap) = Some 1 \<and>
   snd (intersectsConeFrustum the_closure steep_ray double_cone None ray_heap) ! 1
     = vec (Num (1 / 2)) (Num (1 / 2)) (Num 0)"
proof -
  note p = ray_heap_private
  have a: "\<not> strict_eq (coef_c2 (deref_ray ray_heap cross_ray) (deref ray_heap cyl_frustum)) (Num 0)"
    by (simp add: cross_values strict_eq_def)
  have b: "Num 0 < quad_discr (deref_ray ray_heap cross_ray) (deref ray_heap cyl_frustum)"
    by (simp add: cross_values)
  have ok:
    "Num 0 \<le> quad_t0 (deref_ray ray_heap cross_ray) (deref ray_heap cyl_frustum)"
    "Num 0 \<le> dot (axis (deref ray_heap cyl_frustum))
       (addScaledVector (subVectors (origin (deref_ray ray_heap cross_ray)) (base (deref ray_heap cyl_frustum)))
          (direction (deref_ray ray_heap cross_ray))
          (quad_t0 (deref_ray ray_heap cross_ray) (deref ray_heap cyl_frustum)))"
    "dot (axis (deref ray_heap cyl_frustum))
       (addScaledVector (subVectors (origin (deref_ray ray_heap cross_ray)) (base (deref ray_heap cyl_frustum)))
          (direction (deref_ray ray_heap cross_ray))
          (quad_t0 (deref_ray ray_heap cross_ray) (deref ray_heap cyl_frustum))) \<le> height cyl_frustum"
    "Num 0 \<le> quad_t1 (deref_ray ray_heap cross_ray) (deref ray_heap cyl_frustum)"
    "Num 0 \<le> dot (axis (deref ray_heap cyl_frustum))
       (addScaledVector (subVectors (origin (deref_ray ray_heap cross_ray)) (base (deref ray_heap cyl_frustum)))
          (direction (deref_ray ray_heap cross_ray))
          (quad_t1 (deref_ray ray_heap cross_ray) (deref ray_heap cyl_frustum)))"
    "dot (axis (deref ray_heap cyl_frustum))
       (addScaledVector (subVectors (origin (deref_ray ray_heap cross_ray)) (base (deref ray_heap cyl_frustum)))
          (direction (deref_ray ray_heap cross_ray))
          (quad_t1 (deref_ray ray_heap cross_ray) (deref ray_heap cyl_frustum))) \<le> height cyl_frustum"
    unfolding cross_values by (simp_all add: vec_defs)
  from nearer_root_selected[OF p a b ok]
  have "fst (intersectsConeFrustum the_closure cross_ray cyl_frustum None ray_heap)
          = Some (cl_target2 the_closure) \<and>
        snd (intersectsConeFrustum the_closure cross_ray cyl_frustum None ray_heap) ! cl_target2 the_closure
          = vec (Num (- 1)) (Num 5) (Num 0)"
    unfolding cross_values by (simp add: vec_defs)
  then have r1: "fst (intersectsConeFrustum the_closure cross_ray cyl_frustum None ray_heap) = Some 1 \<and>
        snd (intersectsConeFrustum the_closure cross_ray cyl_frustum None ray_heap) ! 1
          = vec (Num (- 1)) (Num 5) (Num 0)"
    by (simp add: the_closure_def)
  note q = steep_private
  have a': "\<not> strict_eq (coef_c2 (deref_ray ray_heap steep_ray) (deref ray_heap double_cone)) (Num 0)"
    by (simp add: steep_values strict_eq_def)
  have b': "Num 0 < quad_discr (deref_ray ray_heap steep_ray) (deref ray_heap double_cone)"
    by (simp add: steep_values)
  have ok':
    "Num 0 \<le> quad_t0 (deref_ray ray_heap steep_ray) (deref ray_heap double_cone)"
    "Num 0 \<le> dot (axis (deref ray_heap double_cone))
       (addScaledVector (subVectors (origin (deref_ray ray_heap steep_ray)) (base (deref ray_heap double_cone)))
          (direction (deref_ray ray_heap steep_ray))
          (quad_t0 (deref_ray ray_heap steep_ray) (deref ray_heap double_cone)))"
    "dot (axis (deref ray_heap double_cone))
       (addScaledVector (subVectors (origin (deref_ray ray_heap steep_ray)) (base (deref ray_heap double_cone)))
          (direction (deref_ray ray_heap steep_ray))
          (quad_t0 (deref_ray ray_heap steep_ray) (deref ray_heap double_cone))) \<le> height double_cone"
    "Num 0 \<le> quad_t1 (deref_ray ray_heap steep_ray) (deref ray_heap double_cone)"
    "Num 0 \<le> dot (axis (deref ray_heap double_cone))
       (addScaledVector (subVectors (origin (deref_ray ray_heap steep_ray)) (base (deref ray_heap double_cone)))
          (direction (deref_ray ray_heap steep_ray))
          (quad_t1 (deref_ray ray_heap steep_ray) (deref ray_heap double_cone)))"
    "dot (axis (deref ray_heap double_cone))
       (addScaledVector (subVectors (origin (deref_ray ray_heap steep_ray)) (base (deref ray_heap double_cone)))
          (direction (deref_ray ray_heap steep_ray))
          (quad_t1 (deref_ray ray_heap steep_ray) (deref ray_heap double_cone))) \<le> height double_cone"
    unfolding steep_values by (simp_all add: vec_defs)
  from nearer_root_selected[OF q a' b' ok']
  have "fst (intersectsConeFrustum the_closure steep_ray double_cone None ray_heap)
          = Some (cl_target2 the_closure) \<and>
        snd (intersectsConeFrustum the_closure steep_ray double_cone None ray_heap) ! cl_target2 the_closure
          = vec (Num (1 / 2)) (Num (1 / 2)) (Num 0)"
    unfolding steep_values by (simp add: vec_defs)
  then have r2: "fst (intersectsConeFrustum the_closure steep_ray double_cone None ray_heap) = Some 1 \<and>
        snd (intersectsConeFrustum the_closure steep_ray double_cone None ray_heap) ! 1
          = vec (Num (1 / 2)) (Num (1 / 2)) (Num 0)"
    by (simp add: the_closure_def)
  from p a b cross_values(3,4) r1 q a' b' steep_values(3,4) r2 show ?thesis by blast
qed

section \<open>Every returned point\<close>

lemma no_root_branch:
  assumes "closure_private cl this frustum target_arg h"
    and "\<not> strict_eq (coef_c2 (deref_ray h this) (deref h frustum)) (Num 0)"
    and "quad_discr (deref_ray h this) (deref h frustum) < Num 0"
  shows "fst (intersectsConeFrustum cl this frustum target_arg h) = None"
  using assms(2,3)
  unfolding intersectsConeFrustum_def Let_def kept_coefficients[OF kept_first[OF assms(1)]]
  by (simp add: quad_discr_def)

lemma double_root_branch:
  fixes cl this frustum target_arg h
  defines "R \<equiv> deref_ray h this" and "F \<equiv> deref h frustum"
    and "res \<equiv> intersectsConeFrustum cl this frustum target_arg h"
  defines "D \<equiv> subVectors (origin R) (base F)"
    and "t \<equiv> (- coef_c1 R F) / coef_c2 R F"
  defines "d \<equiv> dot (axis F) (addScaledVector D (direction R) t)"
  assumes priv: "closure_private cl this frustum target_arg h"
    and c2: "\<not> strict_eq (coef_c2 R F) (Num 0)"
    and discr: "strict_eq (quad_discr R F) (Num 0)"
  shows "if t \<ge> Num 0 \<and> d \<ge> Num 0 \<and> d \<le> height frustum
         then fst res = Some (cl_target2 cl) \<and>
              snd res ! cl_target2 cl = addVectors (base F) (addScaledVector D (direction R) t)
         else fst res = None"
proof -
  let ?target = "case target_arg of None \<Rightarrow> cl_target2 cl | Some r \<Rightarrow> r"
  let ?h1 = "h[cl_D cl := subVectors (h ! origin this) (h ! base frustum)]"
  let ?h2 = "candidate_u cl this t ?h1"
  note k1 = kept_first[OF priv]
  note k2 = kept_candidate[OF priv k1, of t]
  have dd: "axial_of_u cl frustum ?h2 = d"
    unfolding kept_axial[OF k2(1)] k2(2) d_def D_def R_def F_def deref_def deref_ray_def by simp
  have val: "copy_to_target cl ?target (store_hit cl frustum ?h2) ! cl_target2 cl =
             addVectors (base F) (addScaledVector D (direction R) t)"
    unfolding copy_to_target_value(2)[OF priv store_hit_value(2)[OF priv k2(1)]]
      store_hit_value(1)[OF priv k2(1)] k2(2)
    by (simp add: D_def R_def F_def deref_def deref_ray_def)
  have nneg: "\<not> quad_discr R F < Num 0"
    using discr by (cases "quad_discr R F") (simp_all add: strict_eq_def)
  show ?thesis
    unfolding res_def intersectsConeFrustum_def Let_def kept_coefficients[OF k1]
    using dd val c2 discr nneg
    by (simp add: R_def F_def t_def quad_discr_def)
qed

text \<open>
  C2, as it fails. The claim measures the returned point itself. The code tests
  \<open>d = axis . (D + t * direction)\<close> before it adds the base, and the sum with the base
  is rounded. On the cylinder of height 9.5 with base \<open>(0, 1e16, 0)\<close> the ray from
  \<open>(-2, 1e16 + 8, 0)\<close> in direction \<open>(1, 1.5, 0)\<close> has the roots 3 and 1; the candidate
  of \<open>t1 = 1\<close> is \<open>(-1, 9.5, 0)\<close>, with \<open>d = 9.5 <= height\<close>, and the returned point
  is \<open>(-1, 1e16 + 10, 0)\<close>: its axial coordinate \<open>axis . (point - base)\<close> is 10, above
  the height.
\<close>

theorem returned_point_counterexample:
  "far_heap ! direction far_ray \<noteq> vec (Num 0) (Num 0) (Num 0) \<and>
   \<not> empty_f far_frustum \<and> Num 0 < height far_frustum \<and>
   height far_frustum = Num (19 / 2) \<and>
   fst (intersectsConeFrustum the_closure far_ray far_frustum None far_heap) = Some 1 \<and>
   snd (intersectsConeFrustum the_closure far_ray far_frustum None far_heap) ! 1
     = vec (Num (- 1)) (Num 10000000000000010) (Num 0) \<and>
   dot (far_heap ! axis far_frustum)
     (subVectors (snd (intersectsConeFrustum the_closure far_ray far_frustum None far_heap) ! 1)
        (far_heap ! base far_frustum)) = Num 10 \<and>
   \<not> Num 10 \<le> height far_frustum"
proof -
  have far: "intersectsConeFrustum the_closure far_ray far_frustum None far_heap =
      (Some 1, far_heap[0 := vec (Num (- 2)) (Num 8) (Num 0),
                        2 := vec (Num (- 1)) (Num (19 / 2)) (Num 0),
                        1 := vec (Num (- 1)) (Num 10000000000000010) (Num 0)])"
    by (simp add: intersectsConeFrustum_def step_defs the_closure_def far_ray_def
          far_frustum_def far_heap_def vec_defs Let_def)
  have a: "fst (intersectsConeFrustum the_closure far_ray far_frustum None far_heap) = Some 1"
    "snd (intersectsConeFrustum the_closure far_ray far_frustum None far_heap) ! 1
       = vec (Num (- 1)) (Num 10000000000000010) (Num 0)"
    unfolding far by (simp_all add: far_heap_def)
  have b: "dot (far_heap ! axis far_frustum)
     (subVectors (vec (Num (- 1)) (Num 10000000000000010) (Num 0)) (far_heap ! base far_frustum)) = Num 10"
    by (simp add: far_heap_def far_frustum_def vec_defs)
  have c: "height far_frustum = Num (19 / 2)" "Num 0 < height far_frustum"
    "\<not> empty_f far_frustum" "\<not> Num 10 \<le> height far_frustum"
    "far_heap ! direction far_ray \<noteq> vec (Num 0) (Num 0) (Num 0)"
    by (simp_all add: far_frustum_def far_ray_def far_heap_def empty_f_def strict_eq_def vec_def)
  show ?thesis
    unfolding a using b c by (simp del: not_le)
qed

text \<open>
  And on the cylinder built on \<open>target2\<close> the call returns \<open>(-1, 15, 0)\<close> for the ray
  from \<open>(-3, 10, 0)\<close> in direction \<open>(1, 0, 0)\<close>: a point that is
  \<open>origin + t * direction\<close> for no \<open>t\<close>.
\<close>

lemma aliased_point_off_ray:
  "fst (intersectsConeFrustum the_closure alias_ray alias_frustum None alias_heap) = Some 1 \<and>
   (\<forall>t. snd (intersectsConeFrustum the_closure alias_ray alias_frustum None alias_heap) ! 1
          \<noteq> addScaledVector (alias_heap ! origin alias_ray) (alias_heap ! direction alias_ray) t)"
proof -
  have ali: "intersectsConeFrustum the_closure alias_ray alias_frustum None alias_heap =
      (Some 1, alias_heap[0 := vec (Num (- 2)) (Num 5) (Num 0),
                          2 := vec (Num (- 1)) (Num 5) (Num 0),
                          1 := vec (Num (- 1)) (Num 15) (Num 0)])"
    by (simp add: intersectsConeFrustum_def step_defs the_closure_def alias_ray_def
          alias_frustum_def alias_heap_def vec_defs Let_def)
  have off: "vec (Num (- 1)) (Num 15) (Num 0) \<noteq>
             addScaledVector (alias_heap ! origin alias_ray) (alias_heap ! direction alias_ray) t" for t
    by (cases t) (simp_all add: alias_heap_def alias_ray_def addScaledVector_def vec_def)
  have d: "fst (intersectsConeFrustum the_closure alias_ray alias_frustum None alias_heap) = Some 1"
    "snd (intersectsConeFrustum the_closure alias_ray alias_frustum None alias_heap) ! 1
       = vec (Num (- 1)) (Num 15) (Num 0)"
    unfolding ali by (simp_all add: alias_heap_def)
  show ?thesis unfolding d using off by simp
qed

text \<open>
  C2, amended. For every ray and frustum whose direction, base and axis are not the vector
  that holds the function's result: whenever the intersector returns a vector, that vector
  holds \<open>base + ((origin - base) + t * direction)\<close>, every operation rounded as the code
  does it, where \<open>t\<close> is one of the candidates of the code (\<open>-c1 / c2\<close>, \<open>t0\<close>,
  \<open>t1\<close> or \<open>-2 * c0 / c1\<close>), \<open>t >= 0\<close>, and the axial coordinate the code tests,
  \<open>axis . ((origin - base) + t * direction)\<close>, lies in \<open>[0, height]\<close>. Neither the
  direction nor the height nor the radii are constrained.
\<close>

theorem returned_point_of_candidate:
  fixes cl this frustum target_arg h
  defines "R \<equiv> deref_ray h this" and "F \<equiv> deref h frustum"
    and "res \<equiv> intersectsConeFrustum cl this frustum target_arg h"
  defines "D \<equiv> subVectors (origin R) (base F)"
  assumes priv: "closure_private cl this frustum target_arg h"
    and unsh: "result_unshared cl this frustum"
    and ret: "fst res = Some r"
  shows "\<exists>t. (t = (- coef_c1 R F) / coef_c2 R F \<or> t = quad_t0 R F \<or> t = quad_t1 R F \<or>
              t = Num (- 2) * coef_c0 R F / coef_c1 R F) \<and>
             t \<ge> Num 0 \<and>
             snd res ! r = addVectors (base F) (addScaledVector D (direction R) t) \<and>
             dot (axis F) (addScaledVector D (direction R) t) \<ge> Num 0 \<and>
             dot (axis F) (addScaledVector D (direction R) t) \<le> height frustum"
proof -
  let ?R = "deref_ray h this" and ?F = "deref h frustum"
  have ret': "fst (intersectsConeFrustum cl this frustum target_arg h) = Some r"
    using ret unfolding res_def .
  note defs = R_def F_def res_def D_def
  show ?thesis
  proof (cases "strict_eq (coef_c2 ?R ?F) (Num 0)")
    case True
    note lin = linear_branch[OF priv]
    show ?thesis
    proof (cases "strict_eq (coef_c1 ?R ?F) (Num 0)")
      case c1: True
      with True lin ret' show ?thesis unfolding defs by simp
    next
      case c1: False
      with True lin ret' show ?thesis unfolding defs by (auto split: if_splits)
    qed
  next
    case c2: False
    show ?thesis
    proof (cases "quad_discr ?R ?F < Num 0")
      case True
      from no_root_branch[OF priv c2 True] ret' show ?thesis unfolding defs by simp
    next
      case nneg: False
      show ?thesis
      proof (cases "strict_eq (quad_discr ?R ?F) (Num 0)")
        case True
        from double_root_branch[OF priv c2 True] ret'
        show ?thesis unfolding defs by (auto split: if_splits)
      next
        case False
        from two_root_branch[OF priv unsh c2 nneg False] ret'
        show ?thesis unfolding defs by (auto split: if_splits)
      qed
    qed
  qed
qed

text \<open>
  The call on the far cylinder again: it returns \<open>target2\<close>, and the candidate behind the
  returned point is \<open>t1 = 1\<close>, whose axial coordinate as the code tests it is 9.5.
\<close>

theorem returned_point_of_candidate_witness:
  "closure_private the_closure far_ray far_frustum None far_heap \<and>
   result_unshared the_closure far_ray far_frustum \<and>
   fst (intersectsConeFrustum the_closure far_ray far_frustum None far_heap) = Some 1 \<and>
   quad_t1 (deref_ray far_heap far_ray) (deref far_heap far_frustum) = Num 1 \<and>
   dot (axis (deref far_heap far_frustum))
     (addScaledVector (subVectors (origin (deref_ray far_heap far_ray)) (base (deref far_heap far_frustum)))
        (direction (deref_ray far_heap far_ray)) (Num 1)) = Num (19 / 2) \<and>
   (\<exists>t. (t = (- coef_c1 (deref_ray far_heap far_ray) (deref far_heap far_frustum))
                / coef_c2 (deref_ray far_heap far_ray) (deref far_heap far_frustum) \<or>
         t = quad_t0 (deref_ray far_heap far_ray) (deref far_heap far_frustum) \<or>
         t = quad_t1 (deref_ray far_heap far_ray) (deref far_heap far_frustum) \<or>
         t = Num (- 2) * coef_c0 (deref_ray far_heap far_ray) (deref far_heap far_frustum)
                / coef_c1 (deref_ray far_heap far_ray) (deref far_heap far_frustum)) \<and>
        t \<ge> Num 0 \<and>
        snd (intersectsConeFrustum the_closure far_ray far_frustum None far_heap) ! 1 =
          addVectors (base (deref far_heap far_frustum))
            (addScaledVector
               (subVectors (origin (deref_ray far_heap far_ray)) (base (deref far_heap far_frustum)))
               (direction (deref_ray far_heap far_ray)) t) \<and>
        dot (axis (deref far_heap far_frustum))
          (addScaledVector
             (subVectors (origin (deref_ray far_heap far_ray)) (base (deref far_heap far_frustum)))
             (direction (deref_ray far_heap far_ray)) t) \<ge> Num 0 \<and>
        dot (axis (deref far_heap far_frustum))
          (addScaledVector
             (subVectors (origin (deref_ray far_heap far_ray)) (base (deref far_heap far_frustum)))
             (direction (deref_ray far_heap far_ray)) t) \<le> height far_frustum)"
proof -
  have p: "closure_private the_closure far_ray far_frustum None far_heap"
    "result_unshared the_closure far_ray far_frustum"
    by (simp_all add: closure_private_def result_unshared_def the_closure_def far_ray_def
          far_frustum_def far_heap_def)
  have ret: "fst (intersectsConeFrustum the_closure far_ray far_frustum None far_heap) = Some 1"
    by (simp add: intersectsConeFrustum_def step_defs the_closure_def far_ray_def
          far_frustum_def far_heap_def vec_defs Let_def)
  have v: "quad_t1 (deref_ray far_heap far_ray) (deref far_heap far_frustum) = Num 1"
    "dot (axis (deref far_heap far_frustum))
     (addScaledVector (subVectors (origin (deref_ray far_heap far_ray)) (base (deref far_heap far_frustum)))
        (direction (deref_ray far_heap far_ray)) (Num 1)) = Num (19 / 2)"
    by (simp_all add: coef_defs far_ray_def far_frustum_def far_heap_def deref_def deref_ray_def
          vec_defs Let_def)
  from returned_point_of_candidate[OF p ret] p ret v show ?thesis by blast
qed


end
